theory Spec2Isabelle
  imports Main "HOL-Library.Word" "HOL-Library.Signed_Division"
begin

unbundle bit_operations_syntax

section \<open>Types and integer arithmetic of the target\<close>

text \<open>
  The target is an ATmega169 compiled with avr-gcc: \<open>int\<close> is 16 bits wide, so every
  \<open>int16_t\<close> expression of motor.c is evaluated in 16-bit two's complement. Values are
  words; \<open>sint\<close> reads them as signed. Addition, subtraction and multiplication are the
  word operations (they wrap, which is what the compiled code does on overflow), \<open>>>\<close> on a
  signed value is the arithmetic shift \<open>signed_drop_bit\<close>, and \<open>/\<close> is division
  truncating towards zero.
\<close>

type_synonym int16_t = "16 word"
type_synonym uint16_t = "16 word"
type_synonym int8_t = "8 word"
type_synonym uint8_t = "8 word"

definition sdiv16 :: "int16_t \<Rightarrow> int16_t \<Rightarrow> int16_t" where
  "sdiv16 a b = word_of_int (sint a sdiv sint b)"

text \<open>\<open>(1 << n)\<close> stored into an 8-bit register.\<close>

definition BV :: "nat \<Rightarrow> uint8_t" where
  "BV n = push_bit n 1"

text \<open>
  Modelled from the spec: the enum \<open>motor_dir_t\<close> is declared in motor.h, which is not
  part of the sources. The spec gives its three values and their use as the pulse
  increment (+1 open, -1 close, 0 stop).
\<close>

datatype motor_dir_t = close | stop | "open"

fun dir_value :: "motor_dir_t \<Rightarrow> int16_t" where
  "dir_value close = - 1"
| "dir_value stop = 0"
| "dir_value open = 1"

section \<open>Constants declared outside motor.c\<close>

text \<open>
  The macros below come from headers that are not part of the sources (motor.h, main.h,
  task.h, controller.h and the device header). They are parameters of the model.
  \<open>COM_RS\<close> says whether \<open>COM_RS232\<close> or \<open>COM_RS485\<close> is defined.
\<close>

record env =
  MOTOR_MAX_IMPULSES :: int16_t
  MOTOR_MIN_IMPULSES :: int16_t
  EYE_TIMER_NOISE_PROTECTION :: uint8_t
  CTL_ERR_MOTOR :: uint8_t
  TASK_MOTOR_PULSE :: uint8_t
  TASK_MOTOR_STOP :: uint8_t
  COM_RS :: bool
  MOTOR_HR20_PE3 :: nat
  PE0 :: nat
  PE4 :: nat
  PCINT0 :: nat
  PCINT4 :: nat
  TOIE0 :: nat
  WGM00 :: nat
  WGM01 :: nat
  COM0A1 :: nat
  COM0A0 :: nat
  CS00 :: nat

section \<open>State\<close>

text \<open>
  Modelled from the spec: the struct \<open>config\<close> is declared in eeprom.h, which is not
  part of the sources. These are the fields that motor.c reads: the run timeout, the two
  PWM speeds, the hysteresis and protection margins, each one byte, and the manual
  calibration value, a signed 16-bit value kept in the two configuration bytes
  \<open>MOTOR_ManuCalibration_L\<close> and \<open>MOTOR_ManuCalibration_H\<close>.
\<close>

record config_t =
  motor_run_timeout :: uint8_t
  motor_speed_open :: uint8_t
  motor_speed_close :: uint8_t
  motor_hysteresis :: uint8_t
  motor_protection :: uint8_t
  MOTOR_ManuCalibration :: int16_t

datatype config_field = MOTOR_ManuCalibration_L | MOTOR_ManuCalibration_H

text \<open>
  The globals of motor.c, the registers it writes, and the shared variables \<open>task\<close> and
  \<open>CTL_error\<close> (declared in task.h and controller.h, taken as bytes). \<open>H_BRIDGE\<close> records which of the macros \<open>MOTOR_H_BRIDGE_stop\<close>,
  \<open>MOTOR_H_BRIDGE_open\<close>, \<open>MOTOR_H_BRIDGE_close\<close> ran last; \<open>eeprom_saved\<close> lists the
  calls of \<open>eeprom_config_save\<close>, latest first; \<open>RS_rx_enabled\<close> records that the macro
  \<open>RS_enable_rx\<close> ran.
\<close>

record motor_state =
  MOTOR_PosAct :: int16_t
  MOTOR_PosMax :: int16_t
  MOTOR_PosStop :: int16_t
  MOTOR_Dir :: motor_dir_t
  MOTOR_calibration_step :: int8_t
  motor_diag :: uint16_t
  motor_max_time_for_impulse :: uint16_t
  motor_timer :: uint16_t
  MOTOR_wait_for_new_calibration :: uint8_t
  eye_timer :: uint8_t
  pine_last :: uint8_t
  config :: config_t
  eeprom_saved :: "config_field list"
  CTL_error :: uint8_t
  task :: uint8_t
  TIMSK0 :: uint8_t
  PCMSK0 :: uint8_t
  MOTOR_HR20_PE3_P :: uint8_t
  TCCR0A :: uint8_t
  OCR0A :: uint8_t
  H_BRIDGE :: motor_dir_t
  RS_rx_enabled :: bool

definition MOTOR_RUN_OVERLOAD :: uint16_t where
  "MOTOR_RUN_OVERLOAD = 3 * 256"

section \<open>Motor driver\<close>

definition MOTOR_Control :: "env \<Rightarrow> motor_dir_t \<Rightarrow> motor_state \<Rightarrow> motor_state" where
  "MOTOR_Control e direction s =
     (if direction = stop then
        s\<lparr>TIMSK0 := 0,
          PCMSK0 := PCMSK0 s AND NOT (BV (PCINT4 e)),
          MOTOR_HR20_PE3_P := MOTOR_HR20_PE3_P s AND NOT (BV (MOTOR_HR20_PE3 e)),
          H_BRIDGE := stop,
          TCCR0A := BV (WGM00 e) OR BV (WGM01 e),
          MOTOR_Dir := direction\<rparr>
      else if MOTOR_Dir s \<noteq> direction then
        (let t = push_bit 8 (ucast (motor_run_timeout (config s)) :: uint16_t);
             s1 = s\<lparr>MOTOR_HR20_PE3_P := MOTOR_HR20_PE3_P s OR BV (MOTOR_HR20_PE3 e),
                     motor_max_time_for_impulse := t,
                     motor_timer := t,
                     eye_timer := EYE_TIMER_NOISE_PROTECTION e,
                     TIMSK0 := BV (TOIE0 e),
                     PCMSK0 := PCMSK0 s OR BV (PCINT4 e)\<rparr>;
             s2 = (if direction = close then
                     s1\<lparr>H_BRIDGE := close,
                        OCR0A := motor_speed_close (config s),
                        TCCR0A := BV (WGM00 e) OR BV (WGM01 e) OR BV (COM0A1 e) OR BV (CS00 e)\<rparr>
                   else
                     s1\<lparr>H_BRIDGE := open,
                        OCR0A := motor_speed_open (config s),
                        TCCR0A := BV (WGM00 e) OR BV (WGM01 e) OR BV (COM0A1 e)
                                    OR BV (COM0A0 e) OR BV (CS00 e)\<rparr>)
         in s2\<lparr>MOTOR_Dir := direction\<rparr>)
      else s\<lparr>MOTOR_Dir := direction\<rparr>)"

section \<open>Public control functions\<close>

definition eeprom_config_save :: "config_field \<Rightarrow> motor_state \<Rightarrow> motor_state" where
  "eeprom_config_save f s = s\<lparr>eeprom_saved := f # eeprom_saved s\<rparr>"

definition set_ManuCalibration :: "int16_t \<Rightarrow> motor_state \<Rightarrow> motor_state" where
  "set_ManuCalibration v s = s\<lparr>config := (config s)\<lparr>MOTOR_ManuCalibration := v\<rparr>\<rparr>"

text \<open>The first movement leg of a calibration (lines 109 to 118).\<close>

definition calibration_launch :: "env \<Rightarrow> uint8_t \<Rightarrow> motor_state \<Rightarrow> motor_state" where
  "calibration_launch e percent s =
     (if MOTOR_calibration_step s = 1 \<or> MOTOR_calibration_step s = 2 then
        (let s1 = s\<lparr>MOTOR_calibration_step := MOTOR_calibration_step s + 2\<rparr>
         in if MOTOR_ManuCalibration (config s1) = - 1 \<and> 50 < unat percent then
              MOTOR_Control e close (s1\<lparr>MOTOR_PosStop := - MOTOR_MAX_IMPULSES e\<rparr>)
            else
              MOTOR_Control e open (s1\<lparr>MOTOR_PosStop := MOTOR_MAX_IMPULSES e\<rparr>))
      else s)"

text \<open>Leaving the state "not calibrated" (lines 120 to 132).\<close>

definition calibration_init :: "uint8_t \<Rightarrow> motor_state \<Rightarrow> motor_state" where
  "calibration_init cal_type s =
     (if MOTOR_calibration_step s = - 2 then
        (let s1 = (if cal_type = 3 then
                     eeprom_config_save MOTOR_ManuCalibration_H
                       (eeprom_config_save MOTOR_ManuCalibration_L (set_ManuCalibration (- 1) s))
                   else if cal_type = 2 then set_ManuCalibration 0 s
                   else s);
             s2 = s1\<lparr>MOTOR_calibration_step := 1\<rparr>
         in if 0 \<le> sint (MOTOR_ManuCalibration (config s2)) then
              s2\<lparr>MOTOR_calibration_step := MOTOR_calibration_step s2 + 1\<rparr>
            else s2)
      else s)"

definition MOTOR_updateCalibration :: "env \<Rightarrow> uint8_t \<Rightarrow> uint8_t \<Rightarrow> motor_state \<Rightarrow> motor_state" where
  "MOTOR_updateCalibration e cal_type percent s =
     (if cal_type = 0 then
        (MOTOR_Control e stop s)
          \<lparr>MOTOR_PosAct := 0,
           MOTOR_PosMax := 0,
           MOTOR_calibration_step := - 2,
           MOTOR_wait_for_new_calibration := 5\<rparr>
      else
        calibration_init cal_type
          (if MOTOR_wait_for_new_calibration s \<noteq> 0 then
             s\<lparr>MOTOR_wait_for_new_calibration := MOTOR_wait_for_new_calibration s - 1\<rparr>
           else calibration_launch e percent s))"

definition MOTOR_GetPosPercent :: "motor_state \<Rightarrow> uint8_t" where
  "MOTOR_GetPosPercent s =
     (if 10 < sint (MOTOR_PosMax s) \<and> MOTOR_calibration_step s = 0 then
        ucast (sdiv16 (MOTOR_PosAct s * 10) (sdiv16 (MOTOR_PosMax s) 10))
      else 255)"

definition MOTOR_IsCalibrated :: "motor_state \<Rightarrow> bool" where
  "MOTOR_IsCalibrated s \<longleftrightarrow> MOTOR_PosMax s \<noteq> 0 \<and> MOTOR_calibration_step s = 0"

text \<open>The stop position that \<open>MOTOR_Goto\<close> assigns (lines 178 to 191).\<close>

definition goto_PosStop :: "config_t \<Rightarrow> int16_t \<Rightarrow> uint8_t \<Rightarrow> int16_t" where
  "goto_PosStop c posmax percent =
     (if percent = 100 then
        posmax + ucast (motor_hysteresis c) - ucast (motor_protection c)
      else if percent = 0 then
        ucast (motor_protection c) - ucast (motor_hysteresis c)
      else
        sdiv16 (ucast percent
                  * signed_drop_bit 2 (posmax - ucast (motor_protection c) - ucast (motor_protection c)))
               (signed_drop_bit 2 100)
          + ucast (motor_protection c))"

definition MOTOR_Goto :: "env \<Rightarrow> uint8_t \<Rightarrow> motor_state \<Rightarrow> bool \<times> motor_state" where
  "MOTOR_Goto e percent s =
     (if MOTOR_calibration_step s = 0 then
        (let s1 = s\<lparr>MOTOR_PosStop := goto_PosStop (config s) (MOTOR_PosMax s) percent\<rparr>;
             s2 = (if MOTOR_Dir s1 = stop then
                     (let a = MOTOR_PosAct s1; t = MOTOR_PosStop s1
                      in if sint t < sint a then MOTOR_Control e close s1
                         else if sint a < sint t then MOTOR_Control e open s1
                         else s1)
                   else s1)
         in (True, s2))
      else (False, s))"

section \<open>Deferred stop handler\<close>

text \<open>The motor stopped on the open end (lines 296 to 315).\<close>

definition stopped_on_open :: "env \<Rightarrow> motor_state \<Rightarrow> motor_state" where
  "stopped_on_open e s =
     (let a = MOTOR_PosAct s;
          s1 = (if sint (MOTOR_ManuCalibration (config s)) \<le> 0 then
                  (let s' = s\<lparr>MOTOR_PosMax := a\<rparr>
                   in if MOTOR_ManuCalibration (config s') = 0
                         \<and> sint (MOTOR_MIN_IMPULSES e) \<le> sint (MOTOR_PosMax s') then
                        eeprom_config_save MOTOR_ManuCalibration_H
                          (eeprom_config_save MOTOR_ManuCalibration_L (set_ManuCalibration a s'))
                      else s')
                else
                  s\<lparr>MOTOR_PosAct := MOTOR_ManuCalibration (config s),
                    MOTOR_PosMax := MOTOR_ManuCalibration (config s)\<rparr>)
      in if MOTOR_calibration_step s1 = 3 then
           (MOTOR_Control e close s1)
             \<lparr>MOTOR_PosStop := a - MOTOR_MAX_IMPULSES e, MOTOR_calibration_step := 4\<rparr>
         else if MOTOR_calibration_step s1 = 4 then s1\<lparr>MOTOR_calibration_step := 0\<rparr>
         else s1)"

text \<open>The motor stopped on the closed end (lines 317 to 330).\<close>

definition stopped_on_close :: "env \<Rightarrow> motor_state \<Rightarrow> motor_state" where
  "stopped_on_close e s =
     (let a = MOTOR_PosAct s;
          s1 = (if sint (MOTOR_ManuCalibration (config s)) < 0 then
                  s\<lparr>MOTOR_PosMax := MOTOR_PosMax s - a\<rparr>
                else s);
          s2 = s1\<lparr>MOTOR_PosAct := 0\<rparr>
      in if MOTOR_calibration_step s2 = 3 then
           (MOTOR_Control e open (s2\<lparr>MOTOR_PosStop := a + MOTOR_MAX_IMPULSES e\<rparr>))
             \<lparr>MOTOR_calibration_step := 4\<rparr>
         else if MOTOR_calibration_step s2 = 4 then s2\<lparr>MOTOR_calibration_step := 0\<rparr>
         else s2)"

text \<open>The fault check that ends the handler (lines 333 to 338).\<close>

definition motor_fault :: "env \<Rightarrow> motor_state \<Rightarrow> bool" where
  "motor_fault e s \<longleftrightarrow>
     MOTOR_calibration_step s = 0
     \<and> (sint (MOTOR_MAX_IMPULSES e + 1) < sint (MOTOR_PosAct s)
        \<or> sint (MOTOR_PosMax s) < sint (MOTOR_MIN_IMPULSES e))"

definition fault_check :: "env \<Rightarrow> motor_state \<Rightarrow> motor_state" where
  "fault_check e s =
     (if motor_fault e s then s\<lparr>CTL_error := CTL_error s OR CTL_ERR_MOTOR e\<rparr>
      else s\<lparr>CTL_error := CTL_error s AND NOT (CTL_ERR_MOTOR e)\<rparr>)"

definition MOTOR_timer_stop :: "env \<Rightarrow> motor_state \<Rightarrow> motor_state" where
  "MOTOR_timer_stop e s =
     (let d = MOTOR_Dir s;
          s1 = MOTOR_Control e stop s;
          s2 = (if eye_timer s1 = 0xff then
                  (if MOTOR_calibration_step s1 \<noteq> 0 then s1\<lparr>MOTOR_calibration_step := - 1\<rparr>
                   else s1)
                else if d = open then stopped_on_open e s1
                else if d = close then stopped_on_close e s1
                else s1)
      in fault_check e s2)"

section \<open>Interrupt handlers\<close>

text \<open>The pin change interrupt; \<open>pine\<close> is the value read from \<open>PINE\<close>.\<close>

definition PCINT0_vect :: "env \<Rightarrow> uint8_t \<Rightarrow> motor_state \<Rightarrow> motor_state" where
  "PCINT0_vect e pine s =
     (let s1 = (if COM_RS e \<and> pine AND BV (PE0 e) = 0 then
                  s\<lparr>RS_rx_enabled := True, PCMSK0 := PCMSK0 s AND NOT (BV (PCINT0 e))\<rparr>
                else s);
          s2 = (if pine AND NOT (pine_last s1) AND BV (PE4 e) \<noteq> 0 \<and> eye_timer s1 = 0 then
                  (let s' = s1\<lparr>MOTOR_PosAct := MOTOR_PosAct s1 + dir_value (MOTOR_Dir s1),
                               motor_diag := motor_max_time_for_impulse s1 - motor_timer s1,
                               task := task s1 OR TASK_MOTOR_PULSE e\<rparr>
                   in if MOTOR_PosAct s' = MOTOR_PosStop s' then
                        s'\<lparr>eye_timer := 0xff, motor_timer := MOTOR_RUN_OVERLOAD\<rparr>
                      else
                        s'\<lparr>eye_timer := EYE_TIMER_NOISE_PROTECTION e,
                           motor_timer := motor_max_time_for_impulse s'\<rparr>)
                else s1)
      in s2\<lparr>pine_last := pine\<rparr>)"

text \<open>The timer 0 overflow interrupt.\<close>

definition TIMER0_OVF_vect :: "env \<Rightarrow> motor_state \<Rightarrow> motor_state" where
  "TIMER0_OVF_vect e s =
     (let s1 = (if 0 < unat (motor_timer s) then s\<lparr>motor_timer := motor_timer s - 1\<rparr>
                else
                  s\<lparr>H_BRIDGE := stop,
                    motor_diag := (if eye_timer s = 0xff then 0xffff else 0xfffe),
                    TCCR0A := BV (WGM00 e) OR BV (WGM01 e),
                    task := task s OR (TASK_MOTOR_STOP e OR TASK_MOTOR_PULSE e)\<rparr>);
          x = eye_timer s1
      in if 0 < unat x \<and> unat x < 0xff then s1\<lparr>eye_timer := x - 1\<rparr> else s1)"

section \<open>Concrete configurations\<close>

text \<open>
  Sample values for the constants that the headers define: a travel limit of 1000 pulses,
  a minimum of 100, a noise window of 5 ticks, and the register bit numbers of the
  ATmega169.
\<close>

definition hr20_env :: env where
  "hr20_env =
     \<lparr>MOTOR_MAX_IMPULSES = 1000, MOTOR_MIN_IMPULSES = 100, EYE_TIMER_NOISE_PROTECTION = 5,
      CTL_ERR_MOTOR = 4, TASK_MOTOR_PULSE = 0x20, TASK_MOTOR_STOP = 0x40, COM_RS = True,
      MOTOR_HR20_PE3 = 3, PE0 = 0, PE4 = 4, PCINT0 = 0, PCINT4 = 4, TOIE0 = 0,
      WGM00 = 6, WGM01 = 3, COM0A1 = 5, COM0A0 = 4, CS00 = 0\<rparr>"

definition hr20_config :: config_t where
  "hr20_config =
     \<lparr>motor_run_timeout = 20, motor_speed_open = 180, motor_speed_close = 200,
      motor_hysteresis = 10, motor_protection = 15, MOTOR_ManuCalibration = - 1\<rparr>"

text \<open>
  The state after reset: the globals of motor.c hold their initialisers (zero where the
  source gives none), the registers are cleared.
\<close>

definition boot_state :: "config_t \<Rightarrow> motor_state" where
  "boot_state c =
     \<lparr>MOTOR_PosAct = 0, MOTOR_PosMax = 0, MOTOR_PosStop = 0, MOTOR_Dir = stop,
      MOTOR_calibration_step = - 2, motor_diag = 0, motor_max_time_for_impulse = 0,
      motor_timer = 0, MOTOR_wait_for_new_calibration = 5, eye_timer = 0, pine_last = 0,
      config = c, eeprom_saved = [], CTL_error = 0, task = 0, TIMSK0 = 0, PCMSK0 = 0,
      MOTOR_HR20_PE3_P = 0, TCCR0A = 0, OCR0A = 0, H_BRIDGE = stop, RS_rx_enabled = False\<rparr>"

text \<open>A calibrated valve at rest: 400 pulses of travel, standing at pulse 120.\<close>

definition calibrated_state :: motor_state where
  "calibrated_state =
     (boot_state hr20_config)\<lparr>MOTOR_PosAct := 120, MOTOR_PosMax := 400,
        MOTOR_calibration_step := 0, MOTOR_wait_for_new_calibration := 0\<rparr>"

text \<open>The same valve while the motor runs in direction \<open>d\<close> towards pulse \<open>target\<close>.\<close>

definition running_state :: "motor_dir_t \<Rightarrow> int16_t \<Rightarrow> motor_state" where
  "running_state d target =
     (MOTOR_Control hr20_env d calibrated_state)\<lparr>MOTOR_PosStop := target\<rparr>"

text \<open>
  A calibration in its first leg (step 3, opening towards pulse 1000) whose motor has
  stalled after 300 pulses: the debounce window has elapsed, the per-pulse timeout has
  run down to zero, and the pulse counter has not reached the stop position.
\<close>

definition stalled_state :: motor_state where
  "stalled_state =
     (MOTOR_Control hr20_env open
        ((boot_state hr20_config)\<lparr>MOTOR_calibration_step := 3, MOTOR_PosStop := 1000,
           MOTOR_wait_for_new_calibration := 0\<rparr>))
       \<lparr>MOTOR_PosAct := 300, motor_timer := 0, eye_timer := 0\<rparr>"

text \<open>
  The same leg when the pulse counter has reached the stop position: the pulse handler
  has set the debounce counter to 0xff and the overrun timeout has run down.
\<close>

definition overrun_state :: motor_state where
  "overrun_state = stalled_state\<lparr>MOTOR_PosAct := 1000, eye_timer := 0xff\<rparr>"

text \<open>\<open>n\<close> calls of \<open>MOTOR_updateCalibration(1, 0)\<close> in a row.\<close>

definition calibration_ticks :: "env \<Rightarrow> nat \<Rightarrow> motor_state \<Rightarrow> motor_state" where
  "calibration_ticks e n s = (MOTOR_updateCalibration e 1 0 ^^ n) s"

text \<open>\<open>n\<close> timer overflows in a row, with no pulse in between.\<close>

definition timer_ticks :: "env \<Rightarrow> nat \<Rightarrow> motor_state \<Rightarrow> motor_state" where
  "timer_ticks e n s = (TIMER0_OVF_vect e ^^ n) s"

text \<open>
  The opening leg of a calibration with a silent photo eye: six calibration ticks after
  reset start the motor, and 5121 timer overflows pass without a pulse.
\<close>

definition silent_sensor_run :: motor_state where
  "silent_sensor_run =
     timer_ticks hr20_env 5121 (calibration_ticks hr20_env 6 (boot_state hr20_config))"


text \<open>
  Three calibrated valves at rest: one configured without hysteresis, one whose
  protection margin exceeds half of the travel, and one with a travel of 4000 pulses.
\<close>

definition no_hysteresis_state :: motor_state where
  "no_hysteresis_state =
     calibrated_state\<lparr>MOTOR_PosMax := 120, config := hr20_config\<lparr>motor_hysteresis := 0\<rparr>\<rparr>"

definition wide_protection_state :: motor_state where
  "wide_protection_state =
     calibrated_state\<lparr>MOTOR_PosMax := 100, config := hr20_config\<lparr>motor_protection := 60\<rparr>\<rparr>"

definition long_travel_state :: motor_state where
  "long_travel_state = calibrated_state\<lparr>MOTOR_PosMax := 4000\<rparr>"

section \<open>Calibration ticks, one call at a time\<close>

text \<open>
  What one call of \<open>MOTOR_updateCalibration\<close> with a calibration type other than 0 does,
  by the phase the calibration is in.
\<close>

lemma tick_first:
  assumes "MOTOR_calibration_step s = - 2" "MOTOR_wait_for_new_calibration s \<noteq> 0"
    "sint (MOTOR_ManuCalibration (config s)) < 0"
  shows "MOTOR_updateCalibration e 1 percent s =
    s\<lparr>MOTOR_wait_for_new_calibration := MOTOR_wait_for_new_calibration s - 1, MOTOR_calibration_step := 1\<rparr>"
  using assms by (simp add: MOTOR_updateCalibration_def calibration_init_def Let_def)

lemma tick_wait:
  assumes "MOTOR_calibration_step s \<noteq> - 2" "MOTOR_wait_for_new_calibration s \<noteq> 0" "cal_type \<noteq> 0"
  shows "MOTOR_updateCalibration e cal_type percent s =
    s\<lparr>MOTOR_wait_for_new_calibration := MOTOR_wait_for_new_calibration s - 1\<rparr>"
  using assms by (simp add: MOTOR_updateCalibration_def calibration_init_def Let_def)

lemma MOTOR_Control_fields:
  "MOTOR_PosStop (MOTOR_Control e d s) = MOTOR_PosStop s"
  "MOTOR_Dir (MOTOR_Control e d s) = d"
  "MOTOR_PosAct (MOTOR_Control e d s) = MOTOR_PosAct s"
  "MOTOR_PosMax (MOTOR_Control e d s) = MOTOR_PosMax s"
  by (simp_all add: MOTOR_Control_def Let_def)

lemma MOTOR_Control_H_BRIDGE:
  "MOTOR_Dir s \<noteq> d \<or> d = stop \<Longrightarrow> H_BRIDGE (MOTOR_Control e d s) = d"
  by (cases d) (auto simp add: MOTOR_Control_def Let_def)

lemma MOTOR_Control_step: "MOTOR_calibration_step (MOTOR_Control e d s) = MOTOR_calibration_step s"
  by (simp add: MOTOR_Control_def Let_def)

lemma tick_launch:
  assumes "MOTOR_calibration_step s = 1 \<or> MOTOR_calibration_step s = 2" "MOTOR_wait_for_new_calibration s = 0" "cal_type \<noteq> 0"
  shows "MOTOR_updateCalibration e cal_type percent s =
    (if MOTOR_ManuCalibration (config s) = - 1 \<and> 50 < unat percent
     then MOTOR_Control e close (s\<lparr>MOTOR_calibration_step := MOTOR_calibration_step s + 2, MOTOR_PosStop := - MOTOR_MAX_IMPULSES e\<rparr>)
     else MOTOR_Control e open (s\<lparr>MOTOR_calibration_step := MOTOR_calibration_step s + 2, MOTOR_PosStop := MOTOR_MAX_IMPULSES e\<rparr>))"
  using assms
  by (auto simp add: MOTOR_updateCalibration_def calibration_init_def calibration_launch_def
      Let_def MOTOR_Control_step)

lemma tick_idle:
  assumes "MOTOR_calibration_step s = 3 \<or> MOTOR_calibration_step s = 4" "MOTOR_wait_for_new_calibration s = 0" "cal_type \<noteq> 0"
  shows "MOTOR_updateCalibration e cal_type percent s = s"
  using assms
  by (auto simp add: MOTOR_updateCalibration_def calibration_init_def calibration_launch_def
      Let_def MOTOR_Control_step)


lemma calibration_ticks_Suc:
  "calibration_ticks e (Suc n) s = MOTOR_updateCalibration e 1 0 (calibration_ticks e n s)"
  by (simp add: calibration_ticks_def)

lemma calibration_ticks_numeral:
  "calibration_ticks e (numeral k) s
     = MOTOR_updateCalibration e 1 0 (calibration_ticks e (pred_numeral k) s)"
  by (simp add: calibration_ticks_def numeral_eq_Suc)

lemma ticks_waiting:
  assumes "MOTOR_calibration_step s = - 2" "MOTOR_wait_for_new_calibration s = 5"
    "sint (MOTOR_ManuCalibration (config s)) < 0"
  shows "calibration_ticks e 1 s = s\<lparr>MOTOR_wait_for_new_calibration := 4, MOTOR_calibration_step := 1\<rparr>"
    and "calibration_ticks e 2 s = s\<lparr>MOTOR_wait_for_new_calibration := 3, MOTOR_calibration_step := 1\<rparr>"
    and "calibration_ticks e 3 s = s\<lparr>MOTOR_wait_for_new_calibration := 2, MOTOR_calibration_step := 1\<rparr>"
    and "calibration_ticks e 4 s = s\<lparr>MOTOR_wait_for_new_calibration := 1, MOTOR_calibration_step := 1\<rparr>"
    and "calibration_ticks e 5 s = s\<lparr>MOTOR_wait_for_new_calibration := 0, MOTOR_calibration_step := 1\<rparr>"
proof -
  have 1: "calibration_ticks e (Suc 0) s = s\<lparr>MOTOR_wait_for_new_calibration := 4, MOTOR_calibration_step := 1\<rparr>"
    using assms by (simp add: calibration_ticks_def tick_first)
  then show "calibration_ticks e 1 s = s\<lparr>MOTOR_wait_for_new_calibration := 4, MOTOR_calibration_step := 1\<rparr>"
    by simp
  show 2: "calibration_ticks e 2 s = s\<lparr>MOTOR_wait_for_new_calibration := 3, MOTOR_calibration_step := 1\<rparr>"
    by (simp add: calibration_ticks_numeral 1 tick_wait)
  show 3: "calibration_ticks e 3 s = s\<lparr>MOTOR_wait_for_new_calibration := 2, MOTOR_calibration_step := 1\<rparr>"
    by (simp add: calibration_ticks_numeral [of e "num.Bit1 num.One"] 2 tick_wait)
  show 4: "calibration_ticks e 4 s = s\<lparr>MOTOR_wait_for_new_calibration := 1, MOTOR_calibration_step := 1\<rparr>"
    by (simp add: calibration_ticks_numeral [of e "num.Bit0 (num.Bit0 num.One)"] 3 tick_wait)
  show 5: "calibration_ticks e 5 s = s\<lparr>MOTOR_wait_for_new_calibration := 0, MOTOR_calibration_step := 1\<rparr>"
    by (simp add: calibration_ticks_numeral [of e "num.Bit1 (num.Bit0 num.One)"] 4 tick_wait)
qed

lemma ticks_launched:
  assumes "MOTOR_calibration_step s = - 2" "MOTOR_wait_for_new_calibration s = 5"
    "sint (MOTOR_ManuCalibration (config s)) < 0"
  shows "calibration_ticks e (6 + k) s =
    MOTOR_Control e open (s\<lparr>MOTOR_wait_for_new_calibration := 0, MOTOR_calibration_step := 3,
       MOTOR_PosStop := MOTOR_MAX_IMPULSES e\<rparr>)"
proof (induction k)
  case 0
  show ?case
    by (simp add: calibration_ticks_numeral [of e "num.Bit0 (num.Bit1 num.One)"]
        ticks_waiting(5) [OF assms] tick_launch)
next
  case (Suc k)
  have "calibration_ticks e (6 + Suc k) s = MOTOR_updateCalibration e 1 0 (calibration_ticks e (6 + k) s)"
    using calibration_ticks_Suc [of e "6 + k" s] by simp
  also have "\<dots> = calibration_ticks e (6 + k) s"
    by (rule tick_idle) (simp_all add: Suc MOTOR_Control_def Let_def)
  finally show ?case by (simp add: Suc)
qed

section \<open>Timer overflows without pulses\<close>

text \<open>
  While the timeout counter runs and the debounce counter is not the sentinel, a timer
  overflow decrements both, the debounce counter down to zero. The sentinel 0xff is never
  produced by the timer interrupt; the pulse handler produces it only when the actual
  position has reached the stop position.
\<close>

lemma unat8_less_255: "(x :: uint8_t) \<noteq> 0xff \<Longrightarrow> unat x < 255"
proof -
  assume "x \<noteq> 0xff"
  then have "unat x \<noteq> unat (0xff :: uint8_t)"
    by (simp only: word_unat_eq_iff not_False_eq_True)
  moreover have "unat x < 256"
    using unsigned_less [of x, where ?'a = nat] by simp
  ultimately show ?thesis
    by simp
qed

lemma of_nat8_small: "k < 256 \<Longrightarrow> unat (of_nat k :: uint8_t) = k"
  by (simp add: unat_of_nat)

lemma TIMER0_OVF_vect_running:
  assumes "motor_timer s \<noteq> 0" "eye_timer s \<noteq> 0xff"
  shows "TIMER0_OVF_vect e s =
    s\<lparr>motor_timer := motor_timer s - 1,
      eye_timer := (if eye_timer s = 0 then 0 else eye_timer s - 1)\<rparr>"
proof -
  have t: "0 < unat (motor_timer s)"
    using assms(1) by (simp add: unat_gt_0)
  have "unat (eye_timer s) \<noteq> unat (0xff :: uint8_t)"
    using assms(2) by (simp only: word_unat_eq_iff not_False_eq_True)
  moreover have "unat (eye_timer s) < 256"
    using unsigned_less [of "eye_timer s", where ?'a = nat] by simp
  ultimately have e: "unat (eye_timer s) < 255"
    by simp
  show ?thesis
    using t by (simp add: TIMER0_OVF_vect_def Let_def e unat_gt_0)
qed

lemma timer_ticks_running:
  assumes "eye_timer s \<noteq> 0xff"
  shows "n \<le> unat (motor_timer s) \<Longrightarrow>
    timer_ticks e n s =
      s\<lparr>motor_timer := motor_timer s - of_nat n,
        eye_timer := of_nat (unat (eye_timer s) - n)\<rparr>"
proof (induction n)
  case 0
  show ?case by (simp add: timer_ticks_def)
next
  case (Suc n)
  define k where "k = unat (eye_timer s) - n"
  define sn where "sn = s\<lparr>motor_timer := motor_timer s - of_nat n, eye_timer := of_nat k\<rparr>"
  have k: "k < 255"
    using unat8_less_255 [OF assms] by (simp add: k_def)
  have sn: "timer_ticks e n s = sn"
    using Suc by (simp add: sn_def k_def)
  have "motor_timer s \<noteq> of_nat n"
  proof
    assume "motor_timer s = of_nat n"
    then have "unat (motor_timer s) = unat (of_nat n :: uint16_t)" by simp
    also have "\<dots> \<le> n" by (simp add: unat_of_nat)
    finally show False using Suc.prems by simp
  qed
  then have t: "motor_timer sn \<noteq> 0"
    by (simp add: sn_def)
  have uk: "unat (of_nat k :: uint8_t) = k"
    using k by (simp add: of_nat8_small)
  have e: "eye_timer sn \<noteq> 0xff"
  proof
    assume "eye_timer sn = 0xff"
    then have "unat (of_nat k :: uint8_t) = unat (0xff :: uint8_t)" by (simp add: sn_def)
    then show False using k uk by simp
  qed
  have next_eye: "(if eye_timer sn = 0 then 0 else eye_timer sn - 1)
                    = (of_nat (unat (eye_timer s) - Suc n) :: uint8_t)"
  proof (cases "k = 0")
    case True
    then show ?thesis by (simp add: sn_def k_def)
  next
    case False
    then have "unat (of_nat k :: uint8_t) \<noteq> 0" using uk by simp
    then have "(of_nat k :: uint8_t) \<noteq> 0" by (simp only: unat_0_iff not_False_eq_True)
    moreover have "(of_nat k :: uint8_t) - 1 = of_nat (k - 1)"
      using False by (simp add: of_nat_diff)
    moreover have "k - 1 = unat (eye_timer s) - Suc n"
      by (simp add: k_def)
    ultimately show ?thesis by (simp add: sn_def)
  qed
  have "timer_ticks e (Suc n) s = TIMER0_OVF_vect e sn"
    by (simp add: timer_ticks_def flip: sn)
  also have "\<dots> = sn\<lparr>motor_timer := motor_timer sn - 1,
      eye_timer := (if eye_timer sn = 0 then 0 else eye_timer sn - 1)\<rparr>"
    by (rule TIMER0_OVF_vect_running [OF t e])
  finally show ?case
    unfolding next_eye by (simp add: sn_def)
qed

lemma timer_ticks_numeral:
  "timer_ticks e (numeral k) s = TIMER0_OVF_vect e (timer_ticks e (pred_numeral k) s)"
  by (simp add: timer_ticks_def numeral_eq_Suc)

lemma TIMER0_OVF_vect_sentinel:
  assumes "eye_timer s \<noteq> 0xff"
  shows "eye_timer (TIMER0_OVF_vect e s) \<noteq> 0xff"
proof -
  have "unat (eye_timer s) < 255"
    by (rule unat8_less_255 [OF assms])
  moreover have "eye_timer s - 1 \<noteq> 0xff" if "0 < unat (eye_timer s)"
  proof
    assume "eye_timer s - 1 = 0xff"
    then have "eye_timer s = 0" by simp
    with that show False by simp
  qed
  ultimately show ?thesis
    using assms by (simp add: TIMER0_OVF_vect_def Let_def)
qed

lemma PCINT0_vect_sentinel:
  assumes "eye_timer (PCINT0_vect e pine s) = 0xff" "eye_timer s \<noteq> 0xff"
    "EYE_TIMER_NOISE_PROTECTION e \<noteq> 0xff"
  shows "MOTOR_PosAct (PCINT0_vect e pine s) = MOTOR_PosStop (PCINT0_vect e pine s)"
  using assms by (simp add: PCINT0_vect_def Let_def split: if_splits)

section \<open>Integer reading of the 16-bit arithmetic\<close>

text \<open>
  The stop position that \<open>MOTOR_Goto\<close> computes, as an integer, where no intermediate
  result leaves the range of a 16-bit \<open>int\<close>.
\<close>

lemma sint16_of_int:
  "- 32768 \<le> k \<Longrightarrow> k < 32768 \<Longrightarrow> sint (word_of_int k :: int16_t) = k"
  by (simp add: sint_sbintrunc' signed_take_bit_int_eq_self)

lemma uint8_bound: "0 \<le> uint (x :: uint8_t) \<and> uint x \<le> 255"
  using uint_lt2p [of x] by simp

lemma sdrop: "sint (signed_drop_bit 2 (x :: int16_t)) = sint x div 4"
  by (simp add: sint_signed_drop_bit_eq drop_bit_eq_div)

lemma sdiv_nonneg: "0 \<le> a \<Longrightarrow> 0 < b \<Longrightarrow> (a :: int) sdiv b = a div b"
  by (simp add: signed_divide_int_def sgn_if)

lemma sint16_eqI:
  "v = word_of_int k \<Longrightarrow> - 32768 \<le> k \<Longrightarrow> k < 32768 \<Longrightarrow> sint (v :: int16_t) = k"
  by (simp only: sint16_of_int)

lemma goto_PosStop_0:
  "sint (goto_PosStop c posmax 0) = uint (motor_protection c) - uint (motor_hysteresis c)"
proof (rule sint16_eqI)
  show "goto_PosStop c posmax 0
          = word_of_int (uint (motor_protection c) - uint (motor_hysteresis c))"
    by (simp add: goto_PosStop_def)
  show "- 32768 \<le> uint (motor_protection c) - uint (motor_hysteresis c)"
    and "uint (motor_protection c) - uint (motor_hysteresis c) < 32768"
    using uint8_bound [of "motor_protection c"] uint8_bound [of "motor_hysteresis c"]
    by linarith+
qed

lemma goto_PosStop_100:
  assumes "- 32768 \<le> sint posmax + uint (motor_hysteresis c) - uint (motor_protection c)"
    and "sint posmax + uint (motor_hysteresis c) - uint (motor_protection c) < 32768"
  shows "sint (goto_PosStop c posmax 100)
           = sint posmax + uint (motor_hysteresis c) - uint (motor_protection c)"
proof (rule sint16_eqI)
  show "goto_PosStop c posmax 100
          = word_of_int (sint posmax + uint (motor_hysteresis c) - uint (motor_protection c))"
    by (simp add: goto_PosStop_def)
qed (use assms in simp_all)

lemma goto_PosStop_between:
  fixes percent :: uint8_t
  assumes p: "percent \<noteq> 0" "percent \<noteq> 100" "uint percent \<le> 99"
    and r: "0 \<le> sint posmax - 2 * uint (motor_protection c)"
           "sint posmax - 2 * uint (motor_protection c) \<le> 1323"
  shows "sint (goto_PosStop c posmax percent)
           = uint percent * ((sint posmax - 2 * uint (motor_protection c)) div 4) div 25
               + uint (motor_protection c)"
proof -
  define P where "P = uint (motor_protection c)"
  define R where "R = sint posmax - 2 * P"
  define x :: int16_t where "x = posmax - ucast (motor_protection c) - ucast (motor_protection c)"
  define y :: int16_t where "y = signed_drop_bit 2 x"
  define z :: int16_t where "z = ucast percent * y"
  define w :: int16_t where "w = sdiv16 z (signed_drop_bit 2 100)"
  define Q where "Q = uint percent * (R div 4) div 25"
  have R: "0 \<le> R" "R \<le> 1323"
    using r by (simp_all add: R_def P_def)
  have P: "0 \<le> P" "P \<le> 255"
    using uint8_bound [of "motor_protection c"] by (simp_all add: P_def)
  have "x = word_of_int R"
    by (simp add: x_def R_def P_def)
  then have x: "sint x = R"
    by (rule sint16_eqI) (use R in linarith)+
  have y: "sint y = R div 4"
    by (simp add: y_def sdrop x)
  have yb: "0 \<le> R div 4" "R div 4 \<le> 330"
    using R by simp_all
  have pb: "0 \<le> uint percent"
    by simp
  have zb: "0 \<le> uint percent * (R div 4)" "uint percent * (R div 4) \<le> 32670"
    using mult_mono [of "uint percent" 99 "R div 4" 330] p(3) yb pb by simp_all
  have "z = word_of_int (uint percent * sint y)"
    by (simp add: z_def)
  then have "z = word_of_int (uint percent * (R div 4))"
    by (simp only: y)
  then have z: "sint z = uint percent * (R div 4)"
    by (rule sint16_eqI) (use zb in linarith)+
  have Q: "0 \<le> Q" "Q \<le> 1306"
    using zb by (simp_all add: Q_def)
  have "sint z sdiv sint (signed_drop_bit 2 100 :: int16_t) = Q"
    using zb(1) by (simp add: z sdiv_nonneg Q_def)
  then have "w = word_of_int Q"
    by (simp only: w_def sdiv16_def)
  then have w: "sint w = Q"
    by (rule sint16_eqI) (use Q in linarith)+
  have "goto_PosStop c posmax percent = w + ucast (motor_protection c)"
    using p by (simp add: goto_PosStop_def w_def z_def y_def x_def)
  also have "\<dots> = word_of_int (sint w + P)"
    by (simp add: P_def)
  finally have "goto_PosStop c posmax percent = word_of_int (Q + P)"
    by (simp only: w)
  then have "sint (goto_PosStop c posmax percent) = Q + P"
    by (rule sint16_eqI) (use Q P in linarith)+
  then show ?thesis
    by (simp add: Q_def R_def P_def)
qed

lemma MOTOR_Goto_PosStop:
  "MOTOR_calibration_step s = 0 \<Longrightarrow>
     MOTOR_PosStop (snd (MOTOR_Goto e percent s)) = goto_PosStop (config s) (MOTOR_PosMax s) percent"
  by (simp add: MOTOR_Goto_def Let_def MOTOR_Control_fields)

text \<open>
  The value of \<open>MOTOR_GetPosPercent\<close>, as an integer, for a position between 0 and the
  maximum position.
\<close>

lemma uint8_of_small:
  assumes "v = (word_of_int k :: int16_t)" "0 \<le> k" "k < 256"
  shows "uint (ucast v :: uint8_t) = k"
proof -
  have "(ucast v :: uint8_t) = word_of_int k"
    unfolding assms(1) using assms(2,3)
    by (simp add: ucast_eq uint_word_of_int take_bit_int_eq_self)
  then show ?thesis
    using assms(2,3) by (simp add: uint_word_of_int take_bit_int_eq_self)
qed

lemma MOTOR_GetPosPercent_int:
  assumes "10 < sint (MOTOR_PosMax s)" "MOTOR_calibration_step s = 0"
    and "0 \<le> sint (MOTOR_PosAct s)" "sint (MOTOR_PosAct s) \<le> sint (MOTOR_PosMax s)"
    and "sint (MOTOR_PosMax s) \<le> 3276"
  shows "uint (MOTOR_GetPosPercent s)
           = sint (MOTOR_PosAct s) * 10 div (sint (MOTOR_PosMax s) div 10)"
    and "sint (MOTOR_PosAct s) * 10 div (sint (MOTOR_PosMax s) div 10)
           \<le> 100 + 90 div (sint (MOTOR_PosMax s) div 10)"
    and "0 \<le> sint (MOTOR_PosAct s) * 10 div (sint (MOTOR_PosMax s) div 10)"
proof -
  define A where "A = sint (MOTOR_PosAct s)"
  define M where "M = sint (MOTOR_PosMax s)"
  define q where "q = M div 10"
  define a10 :: int16_t where "a10 = MOTOR_PosAct s * 10"
  define d :: int16_t where "d = sdiv16 (MOTOR_PosMax s) 10"
  define r :: int16_t where "r = sdiv16 a10 d"
  have A: "0 \<le> A" "A \<le> M" and M: "10 < M" "M \<le> 3276"
    using assms by (simp_all add: A_def M_def)
  have q: "1 \<le> q" "q \<le> 327" "M \<le> 10 * q + 9"
    using M unfolding q_def by presburger+
  have "a10 = word_of_int (A * 10)"
    by (simp add: a10_def A_def)
  then have a10: "sint a10 = A * 10"
    by (rule sint16_eqI) (use A M in linarith)+
  have "sint (MOTOR_PosMax s) sdiv sint (10 :: int16_t) = q"
    using M by (simp add: sdiv_nonneg q_def M_def)
  then have "d = word_of_int q"
    by (simp only: d_def sdiv16_def)
  then have d: "sint d = q"
    by (rule sint16_eqI) (use q in linarith)+
  have le: "A * 10 \<le> 100 * q + 90"
    using A q by linarith
  have "A * 10 div q \<le> (90 + 100 * q) div q"
    by (rule zdiv_mono1) (use le q in simp_all)
  also have "\<dots> = 100 + 90 div q"
    using q by simp
  finally have ub: "A * 10 div q \<le> 100 + 90 div q" .
  have "90 div q \<le> 90 div 1"
    by (rule zdiv_mono2) (use q in simp_all)
  then have ub2: "A * 10 div q \<le> 190"
    using ub by simp
  have lb: "0 \<le> A * 10 div q"
    using A q by (simp add: pos_imp_zdiv_nonneg_iff)
  have "sint a10 sdiv sint d = A * 10 div q"
    using A q by (simp add: a10 d sdiv_nonneg)
  then have "r = word_of_int (A * 10 div q)"
    by (simp only: r_def sdiv16_def)
  then have "uint (ucast r :: uint8_t) = A * 10 div q"
    by (rule uint8_of_small) (use lb ub2 in linarith)+
  moreover have "MOTOR_GetPosPercent s = ucast r"
    using assms(1,2) by (simp add: MOTOR_GetPosPercent_def r_def d_def a10_def)
  ultimately show "uint (MOTOR_GetPosPercent s)
           = sint (MOTOR_PosAct s) * 10 div (sint (MOTOR_PosMax s) div 10)"
    by (simp add: A_def q_def M_def)
  show "sint (MOTOR_PosAct s) * 10 div (sint (MOTOR_PosMax s) div 10)
           \<le> 100 + 90 div (sint (MOTOR_PosMax s) div 10)"
    using ub by (simp add: A_def q_def M_def)
  show "0 \<le> sint (MOTOR_PosAct s) * 10 div (sint (MOTOR_PosMax s) div 10)"
    using lb by (simp add: A_def q_def M_def)
qed

text \<open>
  The value of \<open>MOTOR_GetPosPercent\<close> in every state with a maximum position above 10
  and calibration step 0: the product wraps to 16 bits, the quotient truncates towards
  zero, and the result keeps the low 8 bits.
\<close>

lemma uint8_ucast_of_int:
  "uint (ucast (word_of_int k :: int16_t) :: uint8_t) = k mod 256"
proof -
  have "uint (ucast (word_of_int k :: int16_t) :: uint8_t) = take_bit 8 (take_bit 16 k)"
    by (simp only: unsigned_ucast_eq uint_word_of_int_eq) simp
  also have "\<dots> = take_bit 8 k"
    by (simp add: take_bit_take_bit)
  also have "\<dots> = k mod 256"
    by (simp add: take_bit_eq_mod)
  finally show ?thesis .
qed

lemma MOTOR_GetPosPercent_general:
  assumes "10 < sint (MOTOR_PosMax s)" "MOTOR_calibration_step s = 0"
  shows "uint (MOTOR_GetPosPercent s)
           = (signed_take_bit 15 (sint (MOTOR_PosAct s) * 10) sdiv (sint (MOTOR_PosMax s) div 10))
               mod 256"
proof -
  define M where "M = sint (MOTOR_PosMax s)"
  define q where "q = M div 10"
  define a10 :: int16_t where "a10 = MOTOR_PosAct s * 10"
  define d :: int16_t where "d = sdiv16 (MOTOR_PosMax s) 10"
  define r :: int16_t where "r = sdiv16 a10 d"
  have M: "10 < M" "M \<le> 32767"
    using assms(1) sint_lt [of "MOTOR_PosMax s"] by (simp_all add: M_def)
  have q: "1 \<le> q" "q \<le> 3276"
    using M unfolding q_def by presburger+
  have a10: "sint a10 = signed_take_bit 15 (sint (MOTOR_PosAct s) * 10)"
    by (simp add: a10_def sint_word_mult)
  have "sint (MOTOR_PosMax s) sdiv sint (10 :: int16_t) = q"
    using M by (simp add: sdiv_nonneg q_def M_def)
  then have "d = word_of_int q"
    by (simp only: d_def sdiv16_def)
  then have d: "sint d = q"
    by (rule sint16_eqI) (use q in linarith)+
  have "r = word_of_int (sint a10 sdiv q)"
    by (simp only: r_def sdiv16_def d)
  then have "uint (ucast r :: uint8_t) = (sint a10 sdiv q) mod 256"
    by (simp only: uint8_ucast_of_int)
  moreover have "MOTOR_GetPosPercent s = ucast r"
    using assms by (simp add: MOTOR_GetPosPercent_def r_def d_def a10_def)
  ultimately show ?thesis
    by (simp only: a10 q_def M_def)
qed

section \<open>The sample states\<close>

text \<open>The state after reset.\<close>

lemma boot_state_fields:
  "MOTOR_calibration_step (boot_state c) = - 2"
  "MOTOR_wait_for_new_calibration (boot_state c) = 5"
  "MOTOR_Dir (boot_state c) = stop"
  "MOTOR_PosStop (boot_state c) = 0"
  "H_BRIDGE (boot_state c) = stop"
  "config (boot_state c) = c"
  by (simp_all add: boot_state_def)

lemma boot_ticks_5:
  "calibration_ticks hr20_env 5 (boot_state hr20_config) =
     (boot_state hr20_config)\<lparr>MOTOR_wait_for_new_calibration := 0, MOTOR_calibration_step := 1\<rparr>"
  by (rule ticks_waiting(5)) (simp_all add: boot_state_fields hr20_config_def)

text \<open>The calibrated valves.\<close>

lemma calibrated_state_fields:
  "MOTOR_calibration_step calibrated_state = 0"
  "MOTOR_PosMax calibrated_state = 400"
  "MOTOR_PosAct calibrated_state = 120"
  "MOTOR_Dir calibrated_state = stop"
  "config calibrated_state = hr20_config"
  by (simp_all add: calibrated_state_def boot_state_def)

lemma hr20_config_fields:
  "motor_protection hr20_config = 15"
  "motor_hysteresis hr20_config = 10"
  by (simp_all add: hr20_config_def)

lemma example_state_fields:
  "MOTOR_calibration_step no_hysteresis_state = 0"
  "MOTOR_PosMax no_hysteresis_state = 120"
  "config no_hysteresis_state = hr20_config\<lparr>motor_hysteresis := 0\<rparr>"
  "MOTOR_calibration_step wide_protection_state = 0"
  "MOTOR_PosMax wide_protection_state = 100"
  "config wide_protection_state = hr20_config\<lparr>motor_protection := 60\<rparr>"
  "MOTOR_calibration_step long_travel_state = 0"
  "MOTOR_PosMax long_travel_state = 4000"
  "config long_travel_state = hr20_config"
  by (simp_all add: no_hysteresis_state_def wide_protection_state_def long_travel_state_def
      calibrated_state_fields)

text \<open>The calibration without pulses, leg by leg.\<close>

lemma boot_ticks_6:
  "calibration_ticks hr20_env 6 (boot_state hr20_config) =
     MOTOR_Control hr20_env open
       ((boot_state hr20_config)\<lparr>MOTOR_wait_for_new_calibration := 0,
          MOTOR_calibration_step := 3, MOTOR_PosStop := 1000\<rparr>)"
  using ticks_launched [of "boot_state hr20_config" hr20_env 0]
  by (simp add: boot_state_def hr20_config_def hr20_env_def)

lemma boot_ticks_6_timers:
  "motor_timer (calibration_ticks hr20_env 6 (boot_state hr20_config)) = 5120"
  "eye_timer (calibration_ticks hr20_env 6 (boot_state hr20_config)) = 5"
  unfolding boot_ticks_6
  by (simp_all add: MOTOR_Control_def Let_def boot_state_def hr20_config_def hr20_env_def)

lemma silent_sensor_run_eq:
  "silent_sensor_run =
     (calibration_ticks hr20_env 6 (boot_state hr20_config))
       \<lparr>motor_timer := 0, eye_timer := 0, H_BRIDGE := stop, motor_diag := 0xfffe,
        TCCR0A := 0x48, task := 0x60\<rparr>"
proof -
  define s6 where "s6 = calibration_ticks hr20_env 6 (boot_state hr20_config)"
  have t: "motor_timer s6 = 5120" and e: "eye_timer s6 = 5"
    by (simp_all add: s6_def boot_ticks_6_timers)
  have "timer_ticks hr20_env 5120 s6 =
      s6\<lparr>motor_timer := motor_timer s6 - of_nat 5120,
         eye_timer := of_nat (unat (eye_timer s6) - 5120)\<rparr>"
    by (rule timer_ticks_running) (simp_all add: t e)
  then have run: "timer_ticks hr20_env 5120 s6 = s6\<lparr>motor_timer := 0, eye_timer := 0\<rparr>"
    by (simp add: t e)
  have "silent_sensor_run = TIMER0_OVF_vect hr20_env (timer_ticks hr20_env 5120 s6)"
    by (simp add: silent_sensor_run_def timer_ticks_numeral flip: s6_def)
  also have "\<dots> = s6\<lparr>motor_timer := 0, eye_timer := 0, H_BRIDGE := stop, motor_diag := 0xfffe,
        TCCR0A := 0x48, task := task s6 OR 0x60\<rparr>"
    unfolding run by (simp add: TIMER0_OVF_vect_def Let_def hr20_env_def BV_def)
  also have "task s6 = 0"
    unfolding s6_def boot_ticks_6 by (simp add: MOTOR_Control_def Let_def boot_state_def)
  finally show ?thesis
    by (simp add: s6_def)
qed



section \<open>The motor driver\<close>

text \<open>
  C8. \<open>MOTOR_Control\<close> called with the direction that is already active, other than
  \<open>stop\<close>, leaves the whole state as it is: H-bridge, PWM registers, photo eye, timers.
  \<open>MOTOR_Control stop\<close> always disables the timer interrupt and the photo eye
  interrupt (bit \<open>PCINT4\<close> of \<open>PCMSK0\<close> is clear afterwards), switches the photo eye and
  the H-bridge off and sets the PWM register to its idle value, whatever the direction
  was, and touches nothing else.
\<close>

theorem MOTOR_Control_active_direction:
  "(direction \<noteq> stop \<and> MOTOR_Dir s = direction \<longrightarrow> MOTOR_Control e direction s = s)
   \<and> MOTOR_Control e stop s =
       s\<lparr>TIMSK0 := 0,
         PCMSK0 := PCMSK0 s AND NOT (BV (PCINT4 e)),
         MOTOR_HR20_PE3_P := MOTOR_HR20_PE3_P s AND NOT (BV (MOTOR_HR20_PE3 e)),
         H_BRIDGE := stop,
         TCCR0A := BV (WGM00 e) OR BV (WGM01 e),
         MOTOR_Dir := stop\<rparr>
   \<and> \<not> bit (PCMSK0 (MOTOR_Control e stop s)) (PCINT4 e)
   \<and> \<not> bit (MOTOR_HR20_PE3_P (MOTOR_Control e stop s)) (MOTOR_HR20_PE3 e)"
  by (simp add: MOTOR_Control_def BV_def bit_simps)

theorem MOTOR_Control_active_direction_witness:
  "MOTOR_Dir (running_state open 300) = open
   \<and> MOTOR_Control hr20_env open (running_state open 300) = running_state open 300
   \<and> TIMSK0 (running_state open 300) = 1
   \<and> TIMSK0 (MOTOR_Control hr20_env stop (running_state open 300)) = 0
   \<and> TCCR0A (running_state open 300) = 0x79
   \<and> TCCR0A (MOTOR_Control hr20_env stop (running_state open 300)) = 0x48
   \<and> TCCR0A (MOTOR_Control hr20_env stop (boot_state hr20_config)) = 0x48"
proof -
  have d: "MOTOR_Dir (running_state open 300) = open"
    by (simp add: running_state_def MOTOR_Control_def Let_def calibrated_state_def
        boot_state_def)
  have "MOTOR_Control hr20_env open (running_state open 300) = running_state open 300"
    using MOTOR_Control_active_direction [of "open" "running_state open 300" hr20_env] d
    by simp
  then show ?thesis
    using d
    by (simp add: running_state_def MOTOR_Control_def calibrated_state_def boot_state_def
        hr20_env_def hr20_config_def BV_def Let_def)
qed

section \<open>The deferred stop handler\<close>

text \<open>
  C9. After \<open>MOTOR_timer_stop\<close> the fault bit \<open>CTL_ERR_MOTOR\<close> of \<open>CTL_error\<close> is set
  exactly when, in the state the handler leaves, the calibration step is 0 and either the
  actual position is above \<open>MOTOR_MAX_IMPULSES + 1\<close> or the maximum position is below
  \<open>MOTOR_MIN_IMPULSES\<close>; in every other case the bit is clear. The other bits of
  \<open>CTL_error\<close> keep their values.
\<close>

theorem MOTOR_timer_stop_fault_flag:
  assumes "CTL_ERR_MOTOR e \<noteq> 0"
  shows "(CTL_error (MOTOR_timer_stop e s) AND CTL_ERR_MOTOR e = CTL_ERR_MOTOR e \<longleftrightarrow>
            MOTOR_calibration_step (MOTOR_timer_stop e s) = 0
            \<and> (sint (MOTOR_MAX_IMPULSES e + 1) < sint (MOTOR_PosAct (MOTOR_timer_stop e s))
               \<or> sint (MOTOR_PosMax (MOTOR_timer_stop e s)) < sint (MOTOR_MIN_IMPULSES e)))
         \<and> (CTL_error (MOTOR_timer_stop e s) AND CTL_ERR_MOTOR e = 0 \<longleftrightarrow>
            \<not> (MOTOR_calibration_step (MOTOR_timer_stop e s) = 0
               \<and> (sint (MOTOR_MAX_IMPULSES e + 1) < sint (MOTOR_PosAct (MOTOR_timer_stop e s))
                  \<or> sint (MOTOR_PosMax (MOTOR_timer_stop e s)) < sint (MOTOR_MIN_IMPULSES e))))
         \<and> CTL_error (MOTOR_timer_stop e s) AND NOT (CTL_ERR_MOTOR e)
             = CTL_error s AND NOT (CTL_ERR_MOTOR e)"
proof -
  define s' where "s' = MOTOR_timer_stop e s"
  define fault where "fault \<longleftrightarrow>
      MOTOR_calibration_step s' = 0
      \<and> (sint (MOTOR_MAX_IMPULSES e + 1) < sint (MOTOR_PosAct s')
         \<or> sint (MOTOR_PosMax s') < sint (MOTOR_MIN_IMPULSES e))"
  obtain x where x: "s' = fault_check e x" and c: "CTL_error x = CTL_error s"
    by (simp add: s'_def MOTOR_timer_stop_def Let_def MOTOR_Control_def stopped_on_open_def
        stopped_on_close_def eeprom_config_save_def set_ManuCalibration_def)
  have f: "fault \<longleftrightarrow> motor_fault e x"
    by (simp add: fault_def x fault_check_def motor_fault_def)
  have set: "(w OR m) AND m = m" and clr: "(w AND NOT m) AND m = 0"
    and keep: "(w OR m) AND NOT m = w AND NOT m" for w m :: uint8_t
    by (simp_all add: bit_eq_iff bit_simps) blast+
  have "(CTL_error s' AND CTL_ERR_MOTOR e = CTL_ERR_MOTOR e \<longleftrightarrow> fault)
        \<and> (CTL_error s' AND CTL_ERR_MOTOR e = 0 \<longleftrightarrow> \<not> fault)
        \<and> CTL_error s' AND NOT (CTL_ERR_MOTOR e) = CTL_error s AND NOT (CTL_ERR_MOTOR e)"
  proof (cases "motor_fault e x")
    case True
    then have "CTL_error s' = CTL_error s OR CTL_ERR_MOTOR e"
      by (simp add: x c fault_check_def)
    then show ?thesis
      using True f assms by (simp add: set keep)
  next
    case False
    then have "CTL_error s' = CTL_error s AND NOT (CTL_ERR_MOTOR e)"
      by (simp add: x c fault_check_def)
    then show ?thesis
      using False f assms by (simp add: clr)
  qed
  then show ?thesis
    by (simp only: s'_def fault_def)
qed

theorem MOTOR_timer_stop_fault_flag_witness:
  "CTL_ERR_MOTOR hr20_env \<noteq> 0
   \<and> MOTOR_calibration_step (MOTOR_timer_stop hr20_env (calibrated_state\<lparr>MOTOR_PosMax := 50\<rparr>)) = 0
   \<and> sint (MOTOR_PosMax (MOTOR_timer_stop hr20_env (calibrated_state\<lparr>MOTOR_PosMax := 50\<rparr>)))
        < sint (MOTOR_MIN_IMPULSES hr20_env)
   \<and> CTL_error (MOTOR_timer_stop hr20_env (calibrated_state\<lparr>MOTOR_PosMax := 50\<rparr>)) = 4
   \<and> CTL_error (MOTOR_timer_stop hr20_env (calibrated_state\<lparr>CTL_error := 7\<rparr>)) = 3"
proof -
  have m: "CTL_ERR_MOTOR hr20_env \<noteq> 0"
    by (simp add: hr20_env_def)
  have a: "CTL_error (MOTOR_timer_stop hr20_env (calibrated_state\<lparr>MOTOR_PosMax := 50\<rparr>)) AND 4 = 4
           \<and> CTL_error (MOTOR_timer_stop hr20_env (calibrated_state\<lparr>MOTOR_PosMax := 50\<rparr>)) AND NOT 4 = 0"
    using MOTOR_timer_stop_fault_flag [OF m, of "calibrated_state\<lparr>MOTOR_PosMax := 50\<rparr>"]
    by (simp add: MOTOR_timer_stop_def Let_def MOTOR_Control_def fault_check_def
        calibrated_state_def boot_state_def hr20_env_def)
  have b: "CTL_error (MOTOR_timer_stop hr20_env (calibrated_state\<lparr>CTL_error := 7\<rparr>)) AND 4 = 0
           \<and> CTL_error (MOTOR_timer_stop hr20_env (calibrated_state\<lparr>CTL_error := 7\<rparr>)) AND NOT 4 = 3"
    using MOTOR_timer_stop_fault_flag [OF m, of "calibrated_state\<lparr>CTL_error := 7\<rparr>"]
    by (simp add: MOTOR_timer_stop_def Let_def MOTOR_Control_def fault_check_def
        calibrated_state_def boot_state_def hr20_env_def)
  have split: "w = (w AND 4) OR (w AND NOT 4)" for w :: uint8_t
    by (simp add: bit_eq_iff bit_simps) blast
  have "CTL_error (MOTOR_timer_stop hr20_env (calibrated_state\<lparr>MOTOR_PosMax := 50\<rparr>)) = 4"
    using a split [of "CTL_error (MOTOR_timer_stop hr20_env (calibrated_state\<lparr>MOTOR_PosMax := 50\<rparr>))"]
    by simp
  moreover have "CTL_error (MOTOR_timer_stop hr20_env (calibrated_state\<lparr>CTL_error := 7\<rparr>)) = 3"
    using b split [of "CTL_error (MOTOR_timer_stop hr20_env (calibrated_state\<lparr>CTL_error := 7\<rparr>))"]
    by simp
  ultimately show ?thesis
    using m
    by (simp add: MOTOR_timer_stop_def Let_def MOTOR_Control_def fault_check_def
        calibrated_state_def boot_state_def hr20_env_def)
qed

text \<open>
  C1 (as amended). When \<open>MOTOR_timer_stop\<close> runs with the debounce counter equal to the
  sentinel 0xff, which the pulse handler sets when the pulse counter has reached the stop
  position, the handler sets the calibration step to -1 if a calibration is in progress
  (step other than 0) and leaves it 0 otherwise; the actual, maximum and stop positions
  keep their values, and the motor is stopped.
\<close>

theorem MOTOR_timer_stop_sentinel:
  assumes "eye_timer s = 0xff"
  shows "MOTOR_calibration_step (MOTOR_timer_stop e s)
           = (if MOTOR_calibration_step s = 0 then 0 else - 1)
         \<and> MOTOR_PosAct (MOTOR_timer_stop e s) = MOTOR_PosAct s
         \<and> MOTOR_PosMax (MOTOR_timer_stop e s) = MOTOR_PosMax s
         \<and> MOTOR_PosStop (MOTOR_timer_stop e s) = MOTOR_PosStop s
         \<and> MOTOR_Dir (MOTOR_timer_stop e s) = stop"
  using assms by (simp add: MOTOR_timer_stop_def Let_def MOTOR_Control_def fault_check_def)

theorem MOTOR_timer_stop_sentinel_witness:
  "eye_timer overrun_state = 0xff
   \<and> MOTOR_calibration_step overrun_state = 3
   \<and> MOTOR_calibration_step (MOTOR_timer_stop hr20_env overrun_state) = - 1
   \<and> MOTOR_PosAct (MOTOR_timer_stop hr20_env overrun_state) = 1000
   \<and> MOTOR_PosMax (MOTOR_timer_stop hr20_env overrun_state) = 0
   \<and> MOTOR_PosStop (MOTOR_timer_stop hr20_env overrun_state) = 1000"
proof -
  have h: "eye_timer overrun_state = 0xff"
    by (simp add: overrun_state_def)
  have s: "MOTOR_calibration_step overrun_state = 3 \<and> MOTOR_PosAct overrun_state = 1000
           \<and> MOTOR_PosMax overrun_state = 0 \<and> MOTOR_PosStop overrun_state = 1000"
    by (simp add: overrun_state_def stalled_state_def MOTOR_Control_def Let_def boot_state_def)
  show ?thesis
    using MOTOR_timer_stop_sentinel [OF h, of hr20_env] h s by simp
qed

text \<open>
  The claim as it was worded fails: a motor that runs into its timeout without the pulse
  counter reaching the stop position does not arrive at the handler with the sentinel,
  and the handler does not take it for a failure. In \<open>silent_sensor_run\<close> the photo eye
  is silent during the opening leg of a calibration: the timer interrupt signals the
  stop with the debounce counter at 0, and the handler goes on to step 4 and the closing
  leg with a new stop position. In \<open>stalled_state\<close> the motor stalls after 300 of the
  1000 pulses: the handler takes the stall for the open end, sets the maximum position
  to 300 and goes on in the same way.
\<close>

theorem MOTOR_timer_stop_timeout_counterexample:
  "MOTOR_calibration_step silent_sensor_run = 3
   \<and> MOTOR_PosAct silent_sensor_run = 0
   \<and> MOTOR_PosStop silent_sensor_run = 1000
   \<and> task silent_sensor_run AND TASK_MOTOR_STOP hr20_env \<noteq> 0
   \<and> eye_timer silent_sensor_run = 0
   \<and> MOTOR_calibration_step (MOTOR_timer_stop hr20_env silent_sensor_run) = 4
   \<and> MOTOR_PosStop (MOTOR_timer_stop hr20_env silent_sensor_run) = - 1000
   \<and> MOTOR_Dir (MOTOR_timer_stop hr20_env silent_sensor_run) = close
   \<and> MOTOR_calibration_step stalled_state = 3
   \<and> motor_timer stalled_state = 0
   \<and> MOTOR_PosAct stalled_state = 300
   \<and> MOTOR_PosStop stalled_state = 1000
   \<and> MOTOR_PosMax stalled_state = 0
   \<and> task (TIMER0_OVF_vect hr20_env stalled_state) AND TASK_MOTOR_STOP hr20_env \<noteq> 0
   \<and> eye_timer (TIMER0_OVF_vect hr20_env stalled_state) = 0
   \<and> MOTOR_calibration_step (MOTOR_timer_stop hr20_env (TIMER0_OVF_vect hr20_env stalled_state)) = 4
   \<and> MOTOR_PosMax (MOTOR_timer_stop hr20_env (TIMER0_OVF_vect hr20_env stalled_state)) = 300
   \<and> MOTOR_PosStop (MOTOR_timer_stop hr20_env (TIMER0_OVF_vect hr20_env stalled_state)) = - 700
   \<and> MOTOR_Dir (MOTOR_timer_stop hr20_env (TIMER0_OVF_vect hr20_env stalled_state)) = close"
proof -
  have silent:
    "MOTOR_calibration_step silent_sensor_run = 3
     \<and> MOTOR_PosAct silent_sensor_run = 0
     \<and> MOTOR_PosStop silent_sensor_run = 1000
     \<and> task silent_sensor_run AND TASK_MOTOR_STOP hr20_env \<noteq> 0
     \<and> eye_timer silent_sensor_run = 0
     \<and> MOTOR_calibration_step (MOTOR_timer_stop hr20_env silent_sensor_run) = 4
     \<and> MOTOR_PosStop (MOTOR_timer_stop hr20_env silent_sensor_run) = - 1000
     \<and> MOTOR_Dir (MOTOR_timer_stop hr20_env silent_sensor_run) = close"
    unfolding silent_sensor_run_eq boot_ticks_6
    by (simp add: MOTOR_timer_stop_def Let_def MOTOR_Control_def stopped_on_open_def
        fault_check_def motor_fault_def boot_state_def hr20_env_def hr20_config_def)
  have stalled:
    "MOTOR_calibration_step stalled_state = 3
     \<and> motor_timer stalled_state = 0
     \<and> MOTOR_PosAct stalled_state = 300
     \<and> MOTOR_PosStop stalled_state = 1000
     \<and> MOTOR_PosMax stalled_state = 0
     \<and> task (TIMER0_OVF_vect hr20_env stalled_state) AND TASK_MOTOR_STOP hr20_env \<noteq> 0
     \<and> eye_timer (TIMER0_OVF_vect hr20_env stalled_state) = 0
     \<and> MOTOR_calibration_step (MOTOR_timer_stop hr20_env (TIMER0_OVF_vect hr20_env stalled_state)) = 4
     \<and> MOTOR_PosMax (MOTOR_timer_stop hr20_env (TIMER0_OVF_vect hr20_env stalled_state)) = 300
     \<and> MOTOR_PosStop (MOTOR_timer_stop hr20_env (TIMER0_OVF_vect hr20_env stalled_state)) = - 700
     \<and> MOTOR_Dir (MOTOR_timer_stop hr20_env (TIMER0_OVF_vect hr20_env stalled_state)) = close"
    by (simp add: stalled_state_def TIMER0_OVF_vect_def MOTOR_timer_stop_def Let_def
        MOTOR_Control_def stopped_on_open_def fault_check_def motor_fault_def boot_state_def
        hr20_env_def hr20_config_def)
  from silent stalled show ?thesis
    by (simp only: simp_thms)
qed

section \<open>The pulse handler\<close>

text \<open>
  C5. A counted pulse (a rising edge of the photo eye while the debounce counter is zero)
  that brings the actual position to the stop position does not stop the motor: direction,
  H-bridge and PWM registers keep their values. The handler sets the debounce counter to
  0xff and the timeout counter to \<open>MOTOR_RUN_OVERLOAD\<close> (768 ticks), not to the
  per-pulse timeout.
\<close>

theorem PCINT0_vect_stop_position:
  assumes "pine AND NOT (pine_last s) AND BV (PE4 e) \<noteq> 0"
    and "eye_timer s = 0"
    and "MOTOR_PosAct s + dir_value (MOTOR_Dir s) = MOTOR_PosStop s"
  shows "eye_timer (PCINT0_vect e pine s) = 0xff
         \<and> motor_timer (PCINT0_vect e pine s) = MOTOR_RUN_OVERLOAD
         \<and> MOTOR_RUN_OVERLOAD = 768
         \<and> MOTOR_PosAct (PCINT0_vect e pine s) = MOTOR_PosStop s
         \<and> MOTOR_PosStop (PCINT0_vect e pine s) = MOTOR_PosStop s
         \<and> MOTOR_Dir (PCINT0_vect e pine s) = MOTOR_Dir s
         \<and> H_BRIDGE (PCINT0_vect e pine s) = H_BRIDGE s
         \<and> TCCR0A (PCINT0_vect e pine s) = TCCR0A s
         \<and> OCR0A (PCINT0_vect e pine s) = OCR0A s
         \<and> TIMSK0 (PCINT0_vect e pine s) = TIMSK0 s
         \<and> MOTOR_HR20_PE3_P (PCINT0_vect e pine s) = MOTOR_HR20_PE3_P s"
  using assms by (simp add: PCINT0_vect_def Let_def MOTOR_RUN_OVERLOAD_def)

theorem PCINT0_vect_stop_position_witness:
  "(0x11 :: uint8_t) AND NOT (pine_last (running_state open 121\<lparr>eye_timer := 0\<rparr>))
       AND BV (PE4 hr20_env) \<noteq> 0
   \<and> MOTOR_PosAct (running_state open 121\<lparr>eye_timer := 0\<rparr>) = 120
   \<and> motor_max_time_for_impulse (running_state open 121\<lparr>eye_timer := 0\<rparr>) = 5120
   \<and> MOTOR_PosAct (PCINT0_vect hr20_env 0x11 (running_state open 121\<lparr>eye_timer := 0\<rparr>)) = 121
   \<and> eye_timer (PCINT0_vect hr20_env 0x11 (running_state open 121\<lparr>eye_timer := 0\<rparr>)) = 0xff
   \<and> motor_timer (PCINT0_vect hr20_env 0x11 (running_state open 121\<lparr>eye_timer := 0\<rparr>)) = 768
   \<and> MOTOR_Dir (PCINT0_vect hr20_env 0x11 (running_state open 121\<lparr>eye_timer := 0\<rparr>)) = open
   \<and> H_BRIDGE (PCINT0_vect hr20_env 0x11 (running_state open 121\<lparr>eye_timer := 0\<rparr>)) = open"
proof -
  have st: "MOTOR_PosAct (running_state open 121\<lparr>eye_timer := 0\<rparr>) = 120
            \<and> MOTOR_PosStop (running_state open 121\<lparr>eye_timer := 0\<rparr>) = 121
            \<and> MOTOR_Dir (running_state open 121\<lparr>eye_timer := 0\<rparr>) = open
            \<and> H_BRIDGE (running_state open 121\<lparr>eye_timer := 0\<rparr>) = open
            \<and> pine_last (running_state open 121\<lparr>eye_timer := 0\<rparr>) = 0
            \<and> motor_max_time_for_impulse (running_state open 121\<lparr>eye_timer := 0\<rparr>) = 5120"
    by (simp add: running_state_def MOTOR_Control_def Let_def calibrated_state_def
        boot_state_def hr20_config_def)
  have h1: "(0x11 :: uint8_t) AND NOT (pine_last (running_state open 121\<lparr>eye_timer := 0\<rparr>))
              AND BV (PE4 hr20_env) \<noteq> 0"
    using st by (simp add: hr20_env_def BV_def)
  have h2: "eye_timer (running_state open 121\<lparr>eye_timer := 0\<rparr>) = 0"
    by simp
  have h3: "MOTOR_PosAct (running_state open 121\<lparr>eye_timer := 0\<rparr>)
              + dir_value (MOTOR_Dir (running_state open 121\<lparr>eye_timer := 0\<rparr>))
            = MOTOR_PosStop (running_state open 121\<lparr>eye_timer := 0\<rparr>)"
    using st by simp
  show ?thesis
    using PCINT0_vect_stop_position [OF h1 h2 h3] h1 st by simp
qed

section \<open>The public control functions\<close>

text \<open>
  C6. From any state, \<open>MOTOR_updateCalibration\<close> with calibration type 0 stops the motor
  at once (direction \<open>stop\<close>, H-bridge off, timer interrupt disabled, PWM register idle)
  and resets the calibration: step -2, actual position 0, maximum position 0. The wait
  counter for a new calibration is 5 afterwards.
\<close>

theorem MOTOR_updateCalibration_reset:
  "MOTOR_calibration_step (MOTOR_updateCalibration e 0 percent s) = - 2
   \<and> MOTOR_PosAct (MOTOR_updateCalibration e 0 percent s) = 0
   \<and> MOTOR_PosMax (MOTOR_updateCalibration e 0 percent s) = 0
   \<and> MOTOR_Dir (MOTOR_updateCalibration e 0 percent s) = stop
   \<and> H_BRIDGE (MOTOR_updateCalibration e 0 percent s) = stop
   \<and> TIMSK0 (MOTOR_updateCalibration e 0 percent s) = 0
   \<and> TCCR0A (MOTOR_updateCalibration e 0 percent s) = BV (WGM00 e) OR BV (WGM01 e)
   \<and> MOTOR_wait_for_new_calibration (MOTOR_updateCalibration e 0 percent s) = 5"
  by (simp add: MOTOR_updateCalibration_def MOTOR_Control_def)

theorem MOTOR_updateCalibration_reset_witness:
  "MOTOR_Dir (running_state close 20) = close
   \<and> MOTOR_PosMax (running_state close 20) = 400
   \<and> MOTOR_calibration_step (MOTOR_updateCalibration hr20_env 0 0 (running_state close 20)) = - 2
   \<and> MOTOR_PosAct (MOTOR_updateCalibration hr20_env 0 0 (running_state close 20)) = 0
   \<and> MOTOR_PosMax (MOTOR_updateCalibration hr20_env 0 0 (running_state close 20)) = 0
   \<and> MOTOR_Dir (MOTOR_updateCalibration hr20_env 0 0 (running_state close 20)) = stop"
proof -
  have "MOTOR_Dir (running_state close 20) = close \<and> MOTOR_PosMax (running_state close 20) = 400"
    by (simp add: running_state_def MOTOR_Control_def Let_def calibrated_state_def boot_state_def)
  then show ?thesis
    using MOTOR_updateCalibration_reset [of hr20_env 0 "running_state close 20"] by simp
qed

text \<open>
  C2 (as amended). \<open>MOTOR_GetPosPercent\<close> returns 255 whenever the maximum position is
  at most 10 or the calibration step is not 0. In every other state it returns the low 8
  bits of \<open>(MOTOR_PosAct * 10) / (MOTOR_PosMax / 10)\<close>, where the product is the 16-bit
  signed product (it wraps for positions beyond 3276 in either direction) and both
  divisions truncate towards zero. For a position between 0 and the maximum position,
  and a maximum position of at most 3276, this is the exact quotient; it is at most
  \<open>100 + 90 / (MOTOR_PosMax / 10)\<close>, hence at most 190 and never 255, and it is at most
  100 when the maximum position is a multiple of 10.
\<close>

theorem MOTOR_GetPosPercent_value:
  "(sint (MOTOR_PosMax s) \<le> 10 \<or> MOTOR_calibration_step s \<noteq> 0 \<longrightarrow>
      MOTOR_GetPosPercent s = 255)
   \<and> (10 < sint (MOTOR_PosMax s) \<and> MOTOR_calibration_step s = 0 \<longrightarrow>
        uint (MOTOR_GetPosPercent s)
          = (signed_take_bit 15 (sint (MOTOR_PosAct s) * 10) sdiv (sint (MOTOR_PosMax s) div 10))
              mod 256)
   \<and> (10 < sint (MOTOR_PosMax s) \<and> MOTOR_calibration_step s = 0
        \<and> - 3276 \<le> sint (MOTOR_PosAct s) \<and> sint (MOTOR_PosAct s) \<le> 3276 \<longrightarrow>
        uint (MOTOR_GetPosPercent s)
          = (sint (MOTOR_PosAct s) * 10 sdiv (sint (MOTOR_PosMax s) div 10)) mod 256)
   \<and> (10 < sint (MOTOR_PosMax s) \<and> MOTOR_calibration_step s = 0
        \<and> 0 \<le> sint (MOTOR_PosAct s) \<and> sint (MOTOR_PosAct s) \<le> sint (MOTOR_PosMax s)
        \<and> sint (MOTOR_PosMax s) \<le> 3276 \<longrightarrow>
        uint (MOTOR_GetPosPercent s)
          = sint (MOTOR_PosAct s) * 10 div (sint (MOTOR_PosMax s) div 10)
        \<and> uint (MOTOR_GetPosPercent s) \<le> 100 + 90 div (sint (MOTOR_PosMax s) div 10)
        \<and> uint (MOTOR_GetPosPercent s) \<le> 190
        \<and> MOTOR_GetPosPercent s \<noteq> 255
        \<and> (10 dvd sint (MOTOR_PosMax s) \<longrightarrow> uint (MOTOR_GetPosPercent s) \<le> 100))"
proof -
  have unknown: "MOTOR_GetPosPercent s = 255"
    if "sint (MOTOR_PosMax s) \<le> 10 \<or> MOTOR_calibration_step s \<noteq> 0"
    using that by (auto simp add: MOTOR_GetPosPercent_def)
  have known:
    "uint (MOTOR_GetPosPercent s)
       = sint (MOTOR_PosAct s) * 10 div (sint (MOTOR_PosMax s) div 10)
     \<and> uint (MOTOR_GetPosPercent s) \<le> 100 + 90 div (sint (MOTOR_PosMax s) div 10)
     \<and> uint (MOTOR_GetPosPercent s) \<le> 190
     \<and> MOTOR_GetPosPercent s \<noteq> 255
     \<and> (10 dvd sint (MOTOR_PosMax s) \<longrightarrow> uint (MOTOR_GetPosPercent s) \<le> 100)"
    if h: "10 < sint (MOTOR_PosMax s)" "MOTOR_calibration_step s = 0"
      "0 \<le> sint (MOTOR_PosAct s)" "sint (MOTOR_PosAct s) \<le> sint (MOTOR_PosMax s)"
      "sint (MOTOR_PosMax s) \<le> 3276"
  proof -
    define A where "A = sint (MOTOR_PosAct s)"
    define q where "q = sint (MOTOR_PosMax s) div 10"
    define v where "v = uint (MOTOR_GetPosPercent s)"
    have v: "v = A * 10 div q" and ub: "A * 10 div q \<le> 100 + 90 div q"
      using MOTOR_GetPosPercent_int [OF h] by (simp_all add: v_def A_def q_def)
    have q: "1 \<le> q"
      using h(1) unfolding q_def by presburger
    have "90 div q \<le> 90 div 1"
      by (rule zdiv_mono2) (use q in simp_all)
    then have v190: "v \<le> 190"
      using v ub by simp
    then have ne: "MOTOR_GetPosPercent s \<noteq> 255"
      by (auto simp add: v_def)
    have v100: "v \<le> 100" if "10 dvd sint (MOTOR_PosMax s)"
    proof -
      from that have "sint (MOTOR_PosMax s) = 10 * q"
        by (simp add: q_def)
      with h(4) have "A * 10 \<le> 100 * q"
        by (simp add: A_def)
      then have "A * 10 div q \<le> 100 * q div q"
        by (rule zdiv_mono1) (use q in simp)
      then show ?thesis
        using q by (simp add: v)
    qed
    show ?thesis
      using v ub v190 ne v100 by (simp add: v_def A_def q_def)
  qed
  have every:
    "uint (MOTOR_GetPosPercent s)
       = (signed_take_bit 15 (sint (MOTOR_PosAct s) * 10) sdiv (sint (MOTOR_PosMax s) div 10))
           mod 256"
    if "10 < sint (MOTOR_PosMax s)" "MOTOR_calibration_step s = 0"
    using that by (rule MOTOR_GetPosPercent_general)
  have no_wrap:
    "uint (MOTOR_GetPosPercent s)
       = (sint (MOTOR_PosAct s) * 10 sdiv (sint (MOTOR_PosMax s) div 10)) mod 256"
    if h: "10 < sint (MOTOR_PosMax s)" "MOTOR_calibration_step s = 0"
      "- 3276 \<le> sint (MOTOR_PosAct s)" "sint (MOTOR_PosAct s) \<le> 3276"
  proof -
    have "signed_take_bit 15 (sint (MOTOR_PosAct s) * 10) = sint (MOTOR_PosAct s) * 10"
      by (rule signed_take_bit_int_eq_self) (use h(3,4) in simp_all)
    then show ?thesis
      using every [OF h(1,2)] by simp
  qed
  show ?thesis
    using unknown every no_wrap known by blast
qed

theorem MOTOR_GetPosPercent_value_witness:
  "MOTOR_calibration_step (boot_state hr20_config) \<noteq> 0
   \<and> MOTOR_GetPosPercent (boot_state hr20_config) = 255
   \<and> sint (MOTOR_PosMax calibrated_state) = 400
   \<and> sint (MOTOR_PosAct calibrated_state) = 120
   \<and> MOTOR_calibration_step calibrated_state = 0
   \<and> uint (MOTOR_GetPosPercent calibrated_state) = 30
   \<and> uint (MOTOR_GetPosPercent (calibrated_state\<lparr>MOTOR_PosAct := 405\<rparr>)) = 101
   \<and> uint (MOTOR_GetPosPercent (calibrated_state\<lparr>MOTOR_PosAct := - 3\<rparr>)) = 0
   \<and> uint (MOTOR_GetPosPercent (calibrated_state\<lparr>MOTOR_PosAct := - 120\<rparr>)) = 226
   \<and> uint (MOTOR_GetPosPercent
             (calibrated_state\<lparr>MOTOR_PosAct := 3277, MOTOR_PosMax := 3277\<rparr>)) = 156"
proof -
  have b: "MOTOR_calibration_step (boot_state hr20_config) \<noteq> 0"
    by (simp add: boot_state_fields)
  have c: "sint (MOTOR_PosMax calibrated_state) = 400" "sint (MOTOR_PosAct calibrated_state) = 120"
    "MOTOR_calibration_step calibrated_state = 0"
    by (simp_all add: calibrated_state_fields)
  have "MOTOR_GetPosPercent (boot_state hr20_config) = 255"
    using MOTOR_GetPosPercent_value [of "boot_state hr20_config"] b by simp
  moreover have "uint (MOTOR_GetPosPercent calibrated_state) = 30"
    using MOTOR_GetPosPercent_value [of calibrated_state] c by simp
  moreover have "uint (MOTOR_GetPosPercent (calibrated_state\<lparr>MOTOR_PosAct := 405\<rparr>)) = 101"
    using MOTOR_GetPosPercent_value [of "calibrated_state\<lparr>MOTOR_PosAct := 405\<rparr>"]
    by (simp add: calibrated_state_fields)
  moreover have "uint (MOTOR_GetPosPercent (calibrated_state\<lparr>MOTOR_PosAct := - 3\<rparr>)) = 0"
    using MOTOR_GetPosPercent_value [of "calibrated_state\<lparr>MOTOR_PosAct := - 3\<rparr>"]
    by (simp add: calibrated_state_fields)
  moreover have "uint (MOTOR_GetPosPercent (calibrated_state\<lparr>MOTOR_PosAct := - 120\<rparr>)) = 226"
    using MOTOR_GetPosPercent_value [of "calibrated_state\<lparr>MOTOR_PosAct := - 120\<rparr>"]
    by (simp add: calibrated_state_fields)
  moreover have "uint (MOTOR_GetPosPercent
                   (calibrated_state\<lparr>MOTOR_PosAct := 3277, MOTOR_PosMax := 3277\<rparr>)) = 156"
    using MOTOR_GetPosPercent_value
      [of "calibrated_state\<lparr>MOTOR_PosAct := 3277, MOTOR_PosMax := 3277\<rparr>"]
    by (simp add: calibrated_state_fields)
  ultimately show ?thesis
    using b c by simp
qed

text \<open>
  The claim as it was worded fails. A calibrated valve with a travel of 109 pulses that
  stands at its open end reads 109, which is above 100: the divisor \<open>MOTOR_PosMax / 10\<close>
  is truncated to 10. And a calibrated state whose position lies far beyond the maximum
  position (255 of 100) reads 255, the value for a position that is not known.
\<close>

theorem MOTOR_GetPosPercent_value_counterexample:
  "MOTOR_calibration_step (calibrated_state\<lparr>MOTOR_PosAct := 109, MOTOR_PosMax := 109\<rparr>) = 0
   \<and> MOTOR_GetPosPercent (calibrated_state\<lparr>MOTOR_PosAct := 109, MOTOR_PosMax := 109\<rparr>) = 109
   \<and> MOTOR_calibration_step (calibrated_state\<lparr>MOTOR_PosAct := 255, MOTOR_PosMax := 100\<rparr>) = 0
   \<and> MOTOR_GetPosPercent (calibrated_state\<lparr>MOTOR_PosAct := 255, MOTOR_PosMax := 100\<rparr>) = 255"
  by (simp add: MOTOR_GetPosPercent_def sdiv16_def calibrated_state_fields)

text \<open>
  C7 (as amended). From the state not calibrated (step -2, wait counter 5) with a negative
  manual calibration value (automatic mode), calls of \<open>MOTOR_updateCalibration(1, 0)\<close>
  do the following. The first five calls let the wait counter run down, with the
  calibration step at 1 and no motor command. From the sixth call on the calibration
  step is 3, the stop position is \<open>MOTOR_MAX_IMPULSES\<close> and the motor has been commanded
  to open. In general, the call that launches the first leg (wait counter 0, step 1 or 2,
  calibration type other than 0) closes towards \<open>- MOTOR_MAX_IMPULSES\<close> exactly when the
  manual calibration value is -1 and percent is over 50; otherwise it opens towards
  \<open>MOTOR_MAX_IMPULSES\<close>.
\<close>

theorem calibration_start:
  assumes "MOTOR_calibration_step s = - 2"
    and "MOTOR_wait_for_new_calibration s = 5"
    and "sint (MOTOR_ManuCalibration (config s)) < 0"
  shows "(1 \<le> n \<and> n \<le> 5 \<longrightarrow>
            calibration_ticks e n s =
              s\<lparr>MOTOR_wait_for_new_calibration := of_nat (5 - n), MOTOR_calibration_step := 1\<rparr>)
         \<and> (6 \<le> n \<longrightarrow>
              calibration_ticks e n s =
                MOTOR_Control e open
                  (s\<lparr>MOTOR_wait_for_new_calibration := 0, MOTOR_calibration_step := 3,
                     MOTOR_PosStop := MOTOR_MAX_IMPULSES e\<rparr>)
              \<and> MOTOR_calibration_step (calibration_ticks e n s) = 3
              \<and> MOTOR_PosStop (calibration_ticks e n s) = MOTOR_MAX_IMPULSES e
              \<and> MOTOR_Dir (calibration_ticks e n s) = open)
         \<and> (6 \<le> n \<and> MOTOR_Dir s \<noteq> open \<longrightarrow> H_BRIDGE (calibration_ticks e n s) = open)
         \<and> (MOTOR_wait_for_new_calibration t = 0
              \<and> (MOTOR_calibration_step t = 1 \<or> MOTOR_calibration_step t = 2)
              \<and> cal_type \<noteq> 0 \<longrightarrow>
              MOTOR_Dir (MOTOR_updateCalibration e cal_type percent t)
                = (if MOTOR_ManuCalibration (config t) = - 1 \<and> 50 < unat percent
                   then close else open)
              \<and> MOTOR_PosStop (MOTOR_updateCalibration e cal_type percent t)
                = (if MOTOR_ManuCalibration (config t) = - 1 \<and> 50 < unat percent
                   then - MOTOR_MAX_IMPULSES e else MOTOR_MAX_IMPULSES e)
              \<and> MOTOR_calibration_step (MOTOR_updateCalibration e cal_type percent t)
                = MOTOR_calibration_step t + 2)"
proof -
  have waiting: "calibration_ticks e n s =
      s\<lparr>MOTOR_wait_for_new_calibration := of_nat (5 - n), MOTOR_calibration_step := 1\<rparr>"
    if "1 \<le> n" "n \<le> 5"
  proof -
    from that have "n = 1 \<or> n = 2 \<or> n = 3 \<or> n = 4 \<or> n = 5" by arith
    then show ?thesis
      using ticks_waiting [OF assms, of e] by auto
  qed
  have launched: "calibration_ticks e n s =
      MOTOR_Control e open
        (s\<lparr>MOTOR_wait_for_new_calibration := 0, MOTOR_calibration_step := 3,
           MOTOR_PosStop := MOTOR_MAX_IMPULSES e\<rparr>)"
    if "6 \<le> n"
    using ticks_launched [OF assms, of e "n - 6"] that by simp
  have first_leg:
    "MOTOR_Dir (MOTOR_updateCalibration e cal_type percent t)
        = (if MOTOR_ManuCalibration (config t) = - 1 \<and> 50 < unat percent then close else open)
     \<and> MOTOR_PosStop (MOTOR_updateCalibration e cal_type percent t)
        = (if MOTOR_ManuCalibration (config t) = - 1 \<and> 50 < unat percent
           then - MOTOR_MAX_IMPULSES e else MOTOR_MAX_IMPULSES e)
     \<and> MOTOR_calibration_step (MOTOR_updateCalibration e cal_type percent t)
        = MOTOR_calibration_step t + 2"
    if "MOTOR_wait_for_new_calibration t = 0"
      "MOTOR_calibration_step t = 1 \<or> MOTOR_calibration_step t = 2" "cal_type \<noteq> 0"
    using tick_launch [OF that(2) that(1) that(3), of e percent]
    by (simp add: MOTOR_Control_fields MOTOR_Control_step)
  show ?thesis
    using waiting launched first_leg
    by (simp add: MOTOR_Control_fields MOTOR_Control_step MOTOR_Control_H_BRIDGE)
qed

theorem calibration_start_witness:
  "MOTOR_calibration_step (boot_state hr20_config) = - 2
   \<and> MOTOR_wait_for_new_calibration (boot_state hr20_config) = 5
   \<and> sint (MOTOR_ManuCalibration (config (boot_state hr20_config))) < 0
   \<and> MOTOR_calibration_step (calibration_ticks hr20_env 6 (boot_state hr20_config)) = 3
   \<and> MOTOR_PosStop (calibration_ticks hr20_env 6 (boot_state hr20_config)) = 1000
   \<and> MOTOR_Dir (calibration_ticks hr20_env 6 (boot_state hr20_config)) = open
   \<and> H_BRIDGE (calibration_ticks hr20_env 6 (boot_state hr20_config)) = open
   \<and> MOTOR_Dir (MOTOR_updateCalibration hr20_env 1 60
         (calibration_ticks hr20_env 5 (boot_state hr20_config))) = close"
proof -
  have h: "MOTOR_calibration_step (boot_state hr20_config) = - 2"
    "MOTOR_wait_for_new_calibration (boot_state hr20_config) = 5"
    "sint (MOTOR_ManuCalibration (config (boot_state hr20_config))) < 0"
    by (simp_all add: boot_state_fields hr20_config_def)
  have m: "MOTOR_MAX_IMPULSES hr20_env = 1000"
    by (simp add: hr20_env_def)
  have c: "MOTOR_ManuCalibration hr20_config = - 1"
    by (simp add: hr20_config_def)
  show ?thesis
    using calibration_start [OF h, of 6 hr20_env
        "calibration_ticks hr20_env 5 (boot_state hr20_config)" 1 60] h
    by (simp add: boot_ticks_5 boot_state_fields m c MOTOR_Control_fields MOTOR_Control_step
        MOTOR_Control_H_BRIDGE)
qed

text \<open>
  The claim as it was worded fails. After five calls the wait counter has run down, but
  the calibration step is still 1 and no motor command has been issued: the launch takes
  a sixth call. And the first leg is a full close with a manual calibration value of -1,
  that is, without any manual calibration, when percent is over 50.
\<close>

theorem calibration_start_counterexample:
  "MOTOR_calibration_step (boot_state hr20_config) = - 2
   \<and> MOTOR_ManuCalibration (config (boot_state hr20_config)) = - 1
   \<and> MOTOR_calibration_step (calibration_ticks hr20_env 5 (boot_state hr20_config)) = 1
   \<and> MOTOR_Dir (calibration_ticks hr20_env 5 (boot_state hr20_config)) = stop
   \<and> H_BRIDGE (calibration_ticks hr20_env 5 (boot_state hr20_config)) = stop
   \<and> MOTOR_PosStop (calibration_ticks hr20_env 5 (boot_state hr20_config)) = 0
   \<and> MOTOR_Dir (MOTOR_updateCalibration hr20_env 1 60
         (calibration_ticks hr20_env 5 (boot_state hr20_config))) = close
   \<and> MOTOR_PosStop (MOTOR_updateCalibration hr20_env 1 60
         (calibration_ticks hr20_env 5 (boot_state hr20_config))) = - 1000"
proof -
  have m: "MOTOR_MAX_IMPULSES hr20_env = 1000"
    by (simp add: hr20_env_def)
  have c: "MOTOR_ManuCalibration hr20_config = - 1"
    by (simp add: hr20_config_def)
  have "MOTOR_updateCalibration hr20_env 1 60
          (calibration_ticks hr20_env 5 (boot_state hr20_config))
        = MOTOR_Control hr20_env close
            ((boot_state hr20_config)\<lparr>MOTOR_wait_for_new_calibration := 0,
               MOTOR_calibration_step := 3, MOTOR_PosStop := - 1000\<rparr>)"
    unfolding boot_ticks_5
    using tick_launch [of "(boot_state hr20_config)\<lparr>MOTOR_wait_for_new_calibration := 0,
        MOTOR_calibration_step := 1\<rparr>" 1 hr20_env 60]
    by (simp add: boot_state_fields m c)
  then show ?thesis
    by (simp add: boot_ticks_5 boot_state_fields c MOTOR_Control_fields)
qed




text \<open>
  C4 (as amended). Let the calibration step be 0 and let the usable travel
  \<open>R = MOTOR_PosMax - 2 * motor_protection\<close> satisfy \<open>0 \<le> R \<le> 1323\<close> (the range in which
  \<open>percent * (R >> 2)\<close> fits a 16-bit \<open>int\<close> for every percent up to 99), with a
  hysteresis above 0 or \<open>R \<ge> 100\<close>. Then for all percents \<open>p1 \<le> p2\<close> in 1..99 the stop
  position that \<open>MOTOR_Goto\<close> assigns for \<open>p1\<close> is above the one for 0, at most the one
  for \<open>p2\<close>, and the one for \<open>p2\<close> is below the one for 100.
\<close>

theorem MOTOR_Goto_PosStop_monotonic:
  assumes "MOTOR_calibration_step s = 0"
    and "0 \<le> sint (MOTOR_PosMax s) - 2 * uint (motor_protection (config s))"
    and "sint (MOTOR_PosMax s) - 2 * uint (motor_protection (config s)) \<le> 1323"
    and "0 < uint (motor_hysteresis (config s))
         \<or> 100 \<le> sint (MOTOR_PosMax s) - 2 * uint (motor_protection (config s))"
    and "1 \<le> unat p1" and "unat p1 \<le> unat p2" and "unat p2 \<le> 99"
  shows "sint (MOTOR_PosStop (snd (MOTOR_Goto e 0 s)))
           < sint (MOTOR_PosStop (snd (MOTOR_Goto e p1 s)))
         \<and> sint (MOTOR_PosStop (snd (MOTOR_Goto e p1 s)))
           \<le> sint (MOTOR_PosStop (snd (MOTOR_Goto e p2 s)))
         \<and> sint (MOTOR_PosStop (snd (MOTOR_Goto e p2 s)))
           < sint (MOTOR_PosStop (snd (MOTOR_Goto e 100 s)))"
proof -
  define P where "P = uint (motor_protection (config s))"
  define H where "H = uint (motor_hysteresis (config s))"
  define R where "R = sint (MOTOR_PosMax s) - 2 * P"
  define Y where "Y = R div 4"
  have R: "0 \<le> R" "R \<le> 1323" and HR: "0 < H \<or> 100 \<le> R"
    using assms(2-4) by (simp_all add: R_def P_def H_def)
  have P: "0 \<le> P" "P \<le> 255" and H: "0 \<le> H" "H \<le> 255"
    using uint8_bound [of "motor_protection (config s)"]
      uint8_bound [of "motor_hysteresis (config s)"]
    by (simp_all add: P_def H_def)
  have Y: "0 \<le> Y" "4 * Y \<le> R" "100 \<le> R \<longrightarrow> 25 \<le> Y"
    using R unfolding Y_def by presburger+
  have u: "uint p1 = int (unat p1)" "uint p2 = int (unat p2)"
    by simp_all
  have p: "1 \<le> uint p1" "uint p1 \<le> uint p2" "uint p2 \<le> 99"
    using assms(5-7) unfolding u by linarith+
  have ne: "p1 \<noteq> 0" "p1 \<noteq> 100" "p2 \<noteq> 0" "p2 \<noteq> 100"
    using p by auto
  have s0: "sint (MOTOR_PosStop (snd (MOTOR_Goto e 0 s))) = P - H"
    by (simp add: MOTOR_Goto_PosStop assms(1) goto_PosStop_0 P_def H_def)
  have s1: "sint (MOTOR_PosStop (snd (MOTOR_Goto e p1 s))) = uint p1 * Y div 25 + P"
    using goto_PosStop_between [OF ne(1,2) _ assms(2,3)] p
    by (simp add: MOTOR_Goto_PosStop assms(1) P_def R_def Y_def)
  have s2: "sint (MOTOR_PosStop (snd (MOTOR_Goto e p2 s))) = uint p2 * Y div 25 + P"
    using goto_PosStop_between [OF ne(3,4) _ assms(2,3)] p
    by (simp add: MOTOR_Goto_PosStop assms(1) P_def R_def Y_def)
  have b: "- 32768 \<le> sint (MOTOR_PosMax s) + uint (motor_hysteresis (config s))
                         - uint (motor_protection (config s))"
    "sint (MOTOR_PosMax s) + uint (motor_hysteresis (config s))
       - uint (motor_protection (config s)) < 32768"
    using R P H unfolding R_def P_def H_def by linarith+
  have s100: "sint (MOTOR_PosStop (snd (MOTOR_Goto e 100 s))) = R + P + H"
    using goto_PosStop_100 [OF b]
    by (simp add: MOTOR_Goto_PosStop assms(1) R_def P_def H_def)
  have m1: "0 \<le> uint p1 * Y"
    using p Y(1) by simp
  have m12: "uint p1 * Y \<le> uint p2 * Y"
    using mult_right_mono [OF p(2) Y(1)] .
  have m2: "uint p2 * Y \<le> 99 * Y"
    using mult_right_mono [OF p(3) Y(1)] .
  have low: "P - H < uint p1 * Y div 25 + P"
  proof (cases "0 < H")
    case True
    with m1 show ?thesis by simp
  next
    case False
    with HR Y(3) have "25 \<le> Y" by simp
    moreover have "1 * Y \<le> uint p1 * Y"
      using mult_right_mono [OF p(1) Y(1)] .
    ultimately have "25 \<le> uint p1 * Y" by linarith
    then have "1 \<le> uint p1 * Y div 25" by simp
    with H show ?thesis by simp
  qed
  have mid: "uint p1 * Y div 25 \<le> uint p2 * Y div 25"
    using m12 by (rule zdiv_mono1) simp
  have "uint p2 * Y div 25 \<le> 99 * Y div 25"
    using m2 by (rule zdiv_mono1) simp
  moreover have "99 * Y div 25 < R + H"
    using Y(1,2) HR H(1) R(1) by auto
  ultimately have high: "uint p2 * Y div 25 + P < R + P + H"
    by simp
  show ?thesis
    using low mid high by (simp add: s0 s1 s2 s100)
qed

theorem MOTOR_Goto_PosStop_monotonic_witness:
  "MOTOR_calibration_step calibrated_state = 0
   \<and> sint (MOTOR_PosMax calibrated_state)
        - 2 * uint (motor_protection (config calibrated_state)) = 370
   \<and> uint (motor_hysteresis (config calibrated_state)) = 10
   \<and> sint (MOTOR_PosStop (snd (MOTOR_Goto hr20_env 0 calibrated_state)))
        < sint (MOTOR_PosStop (snd (MOTOR_Goto hr20_env 25 calibrated_state)))
   \<and> sint (MOTOR_PosStop (snd (MOTOR_Goto hr20_env 25 calibrated_state)))
        \<le> sint (MOTOR_PosStop (snd (MOTOR_Goto hr20_env 75 calibrated_state)))
   \<and> sint (MOTOR_PosStop (snd (MOTOR_Goto hr20_env 75 calibrated_state)))
        < sint (MOTOR_PosStop (snd (MOTOR_Goto hr20_env 100 calibrated_state)))
   \<and> MOTOR_PosStop (snd (MOTOR_Goto hr20_env 0 calibrated_state)) = 5
   \<and> MOTOR_PosStop (snd (MOTOR_Goto hr20_env 25 calibrated_state)) = 107
   \<and> MOTOR_PosStop (snd (MOTOR_Goto hr20_env 75 calibrated_state)) = 291
   \<and> MOTOR_PosStop (snd (MOTOR_Goto hr20_env 100 calibrated_state)) = 395"
proof -
  have h: "MOTOR_calibration_step calibrated_state = 0"
    "0 \<le> sint (MOTOR_PosMax calibrated_state)
            - 2 * uint (motor_protection (config calibrated_state))"
    "sint (MOTOR_PosMax calibrated_state)
       - 2 * uint (motor_protection (config calibrated_state)) \<le> 1323"
    "0 < uint (motor_hysteresis (config calibrated_state))
     \<or> 100 \<le> sint (MOTOR_PosMax calibrated_state)
                 - 2 * uint (motor_protection (config calibrated_state))"
    "1 \<le> unat (25 :: uint8_t)" "unat (25 :: uint8_t) \<le> unat (75 :: uint8_t)"
    "unat (75 :: uint8_t) \<le> 99"
    by (simp_all add: calibrated_state_fields hr20_config_fields)
  have v: "goto_PosStop hr20_config 400 0 = 5" "goto_PosStop hr20_config 400 25 = 107"
    "goto_PosStop hr20_config 400 75 = 291" "goto_PosStop hr20_config 400 100 = 395"
    by (simp_all add: goto_PosStop_def hr20_config_fields sdiv16_def)
  show ?thesis
    using MOTOR_Goto_PosStop_monotonic [OF h, of hr20_env]
    by (simp add: MOTOR_Goto_PosStop calibrated_state_fields hr20_config_fields v)
qed

text \<open>
  The claim as it was worded fails in calibrated states. Without hysteresis and with a
  usable travel of 90 pulses, 1 percent gets the stop position of 0 percent. With a
  protection margin above half of the travel the interpolation runs backwards: 1 percent
  lies above 100 percent and 99 percent below 0 percent. With a travel of 4000 pulses
  the 16-bit product wraps between 33 and 34 percent.
\<close>

theorem MOTOR_Goto_PosStop_monotonic_counterexample:
  "MOTOR_IsCalibrated no_hysteresis_state
   \<and> MOTOR_PosStop (snd (MOTOR_Goto hr20_env 0 no_hysteresis_state)) = 15
   \<and> MOTOR_PosStop (snd (MOTOR_Goto hr20_env 1 no_hysteresis_state)) = 15
   \<and> MOTOR_IsCalibrated wide_protection_state
   \<and> MOTOR_PosStop (snd (MOTOR_Goto hr20_env 0 wide_protection_state)) = 50
   \<and> MOTOR_PosStop (snd (MOTOR_Goto hr20_env 1 wide_protection_state)) = 60
   \<and> MOTOR_PosStop (snd (MOTOR_Goto hr20_env 99 wide_protection_state)) = 41
   \<and> MOTOR_PosStop (snd (MOTOR_Goto hr20_env 100 wide_protection_state)) = 50
   \<and> MOTOR_IsCalibrated long_travel_state
   \<and> MOTOR_PosStop (snd (MOTOR_Goto hr20_env 33 long_travel_state)) = 1324
   \<and> MOTOR_PosStop (snd (MOTOR_Goto hr20_env 34 long_travel_state)) = - 1257"
proof -
  have a: "goto_PosStop (hr20_config\<lparr>motor_hysteresis := 0\<rparr>) 120 0 = 15"
    "goto_PosStop (hr20_config\<lparr>motor_hysteresis := 0\<rparr>) 120 1 = 15"
    by (simp_all add: goto_PosStop_def hr20_config_fields sdiv16_def)
  have b: "goto_PosStop (hr20_config\<lparr>motor_protection := 60\<rparr>) 100 0 = 50"
    "goto_PosStop (hr20_config\<lparr>motor_protection := 60\<rparr>) 100 1 = 60"
    "goto_PosStop (hr20_config\<lparr>motor_protection := 60\<rparr>) 100 99 = 41"
    "goto_PosStop (hr20_config\<lparr>motor_protection := 60\<rparr>) 100 100 = 50"
    by (simp_all add: goto_PosStop_def hr20_config_fields sdiv16_def)
  have c: "goto_PosStop hr20_config 4000 33 = 1324" "goto_PosStop hr20_config 4000 34 = - 1257"
    by (simp_all add: goto_PosStop_def hr20_config_fields sdiv16_def)
  show ?thesis
    by (simp add: MOTOR_IsCalibrated_def MOTOR_Goto_PosStop example_state_fields a b c)
qed

text \<open>
  C10. \<open>MOTOR_Goto\<close> called with calibration step 0, the motor at rest and the actual
  position equal to the stop position it computes returns true and issues no motor
  command: only \<open>MOTOR_PosStop\<close> is assigned, the direction stays \<open>stop\<close>, and no
  register changes.
\<close>

theorem MOTOR_Goto_at_target:
  assumes "MOTOR_calibration_step s = 0"
    and "MOTOR_Dir s = stop"
    and "MOTOR_PosAct s = goto_PosStop (config s) (MOTOR_PosMax s) percent"
  shows "MOTOR_Goto e percent s = (True, s\<lparr>MOTOR_PosStop := MOTOR_PosAct s\<rparr>)
         \<and> MOTOR_Dir (snd (MOTOR_Goto e percent s)) = stop
         \<and> H_BRIDGE (snd (MOTOR_Goto e percent s)) = H_BRIDGE s
         \<and> TCCR0A (snd (MOTOR_Goto e percent s)) = TCCR0A s"
  using assms by (simp add: MOTOR_Goto_def Let_def)

theorem MOTOR_Goto_at_target_witness:
  "MOTOR_calibration_step (calibrated_state\<lparr>MOTOR_PosAct := 199\<rparr>) = 0
   \<and> MOTOR_Dir (calibrated_state\<lparr>MOTOR_PosAct := 199\<rparr>) = stop
   \<and> goto_PosStop (config (calibrated_state\<lparr>MOTOR_PosAct := 199\<rparr>))
        (MOTOR_PosMax (calibrated_state\<lparr>MOTOR_PosAct := 199\<rparr>)) 50 = 199
   \<and> MOTOR_Goto hr20_env 50 (calibrated_state\<lparr>MOTOR_PosAct := 199\<rparr>)
        = (True, calibrated_state\<lparr>MOTOR_PosAct := 199, MOTOR_PosStop := 199\<rparr>)"
proof -
  have v: "goto_PosStop hr20_config 400 50 = 199"
    by (simp add: goto_PosStop_def hr20_config_fields sdiv16_def)
  have h: "MOTOR_calibration_step (calibrated_state\<lparr>MOTOR_PosAct := 199\<rparr>) = 0"
    "MOTOR_Dir (calibrated_state\<lparr>MOTOR_PosAct := 199\<rparr>) = stop"
    "MOTOR_PosAct (calibrated_state\<lparr>MOTOR_PosAct := 199\<rparr>)
       = goto_PosStop (config (calibrated_state\<lparr>MOTOR_PosAct := 199\<rparr>))
           (MOTOR_PosMax (calibrated_state\<lparr>MOTOR_PosAct := 199\<rparr>)) 50"
    by (simp_all add: calibrated_state_fields v)
  show ?thesis
    using MOTOR_Goto_at_target [OF h, of hr20_env] h
    by (simp add: calibrated_state_fields v)
qed

end
